theory Spec2Isabelle
  imports Main "HOL-Library.AList" "HOL-Library.Word"
begin

section \<open>The NSIS target of electron-builder\<close>

text \<open>
  A shallow embedding of \<^verbatim>\<open>packages/app-builder-lib/src/targets/nsis/NsisTarget.ts\<close>
  (the build orchestration of the NSIS installer target), of the options it reads
  (\<^verbatim>\<open>nsisOptions.ts\<close>) and of the macro \<^verbatim>\<open>installApplicationFiles\<close> of the
  installer template. Promises become results (\<open>error + 'a\<close>), mutation of the defines
  object becomes map update, the file system and the external processes become explicit
  parameters and event traces.
\<close>

subsection \<open>Options and target state\<close>

text \<open>
  Modelled from the spec: the architecture enumeration \<^verbatim>\<open>Arch\<close> of builder-util, whose
  declaration is not among the sources. The code distinguishes \<^verbatim>\<open>Arch.x64\<close>,
  \<^verbatim>\<open>Arch.arm64\<close> and "anything else" (the 32-bit slot).
\<close>

datatype Arch = ia32 | x64 | armv7l | arm64 | universal

text \<open>The type \<^verbatim>\<open>string | boolean\<close> of the portable option \<^verbatim>\<open>unpackDirName\<close>.\<close>

datatype StringOrBoolean = IsString string | IsBoolean bool

text \<open>
  \<^verbatim>\<open>NsisOptions\<close>, with the fields of \<^verbatim>\<open>PortableOptions\<close>, which the portable target
  reads from the same object; \<^verbatim>\<open>debugLogging\<close> is \<^verbatim>\<open>customNsisBinary?.debugLogging\<close>.
  Every field is optional in the interface, so a boolean field is \<open>bool option\<close>
  (\<open>None\<close> is \<^verbatim>\<open>undefined\<close>) and a string field is \<open>string option\<close>.
\<close>

record NsisOptions =
  oneClick :: "bool option"
  perMachine :: "bool option"
  selectPerMachineByDefault :: "bool option"
  allowElevation :: "bool option"
  allowToAddShortcut :: "bool option"
  allowToChangeInstallationDirectory :: "bool option"
  removeDefaultUninstallWelcomePage :: "bool option"
  runAfterFinish :: "bool option"
  deleteAppDataOnUninstall :: "bool option"
  displayLanguageSelector :: "bool option"
  packElevateHelper :: "bool option"
  buildUniversalInstaller :: "bool option"
  useZip :: "bool option"
  differentialPackage :: "bool option"
  uninstallDisplayName :: "string option"
  script :: "string option"
  guid :: "string option"
  installerIcon :: "string option"
  uninstallerIcon :: "string option"
  installerHeader :: "string option"
  installerHeaderIcon :: "string option"
  installerSidebar :: "string option"
  uninstallerSidebar :: "string option"
  uninstallUrlHelp :: "string option"
  uninstallUrlInfoAbout :: "string option"
  uninstallUrlUpdateInfo :: "string option"
  uninstallUrlReadme :: "string option"
  debugLogging :: "bool option"
  requestExecutionLevel :: "string option"
  unpackDirName :: "StringOrBoolean option"
  splashImage :: "string option"

text \<open>The options object with no field set: every default applies.\<close>

definition noOptions :: NsisOptions where
  "noOptions = \<lparr>oneClick = None, perMachine = None, selectPerMachineByDefault = None,
     allowElevation = None, allowToAddShortcut = None,
     allowToChangeInstallationDirectory = None, removeDefaultUninstallWelcomePage = None,
     runAfterFinish = None, deleteAppDataOnUninstall = None, displayLanguageSelector = None,
     packElevateHelper = None, buildUniversalInstaller = None, useZip = None,
     differentialPackage = None, uninstallDisplayName = None, script = None, guid = None,
     installerIcon = None, uninstallerIcon = None, installerHeader = None,
     installerHeaderIcon = None, installerSidebar = None, uninstallerSidebar = None,
     uninstallUrlHelp = None, uninstallUrlInfoAbout = None, uninstallUrlUpdateInfo = None,
     uninstallUrlReadme = None, debugLogging = None, requestExecutionLevel = None,
     unpackDirName = None, splashImage = None\<rparr>"

text \<open>JavaScript truthiness of an optional boolean (\<^verbatim>\<open>if (options.x)\<close>).\<close>

definition truthy :: "bool option \<Rightarrow> bool" where
  "truthy b = (b = Some True)"

text \<open>
  The fields of \<^verbatim>\<open>NsisTarget\<close> the modelled methods read: the target name, the output
  directory, the options, the getter \<^verbatim>\<open>isWebInstaller\<close> (\<^verbatim>\<open>false\<close> in this class,
  overridden by the web installer target) and the \<^verbatim>\<open>archs\<close> map. A JavaScript
  \<^verbatim>\<open>Map\<close> iterates in insertion order and \<^verbatim>\<open>set\<close> on a present key keeps its
  position, which is \<open>AList.update\<close>.
\<close>

type_synonym ArchMap = "(Arch \<times> string) list"

record NsisTarget =
  name :: string
  outDir :: string
  options :: NsisOptions
  isWebInstaller :: bool
  archs :: ArchMap

definition isPortable :: "NsisTarget \<Rightarrow> bool" where
  "isPortable t = (name t = ''portable'')"

definition shouldBuildUniversalInstaller :: "NsisTarget \<Rightarrow> bool" where
  "shouldBuildUniversalInstaller t =
     (let buildSeparateInstallers = (buildUniversalInstaller (options t) = Some False)
      in \<not> buildSeparateInstallers)"

definition isBuildDifferentialAware :: "NsisTarget \<Rightarrow> bool" where
  "isBuildDifferentialAware t =
     (\<not> isPortable t \<and> differentialPackage (options t) \<noteq> Some False)"

subsection \<open>Scheduling the installer builds: \<^verbatim>\<open>build\<close> and \<^verbatim>\<open>finishBuild\<close>\<close>

text \<open>\<^verbatim>\<open>String.prototype.includes\<close>: the second string occurs in the first.\<close>

fun str_includes :: "string \<Rightarrow> string \<Rightarrow> bool" where
  "str_includes [] sub = (sub = [])"
| "str_includes (c # cs) sub = (take (length sub) (c # cs) = sub \<or> str_includes cs sub)"

text \<open>
  The errors the modelled code raises: the configuration error of \<^verbatim>\<open>configureDefines\<close>
  (with its message) and the failure of an external collaborator (compiler, signer,
  emulator), named by the step that failed.
\<close>

datatype error = InvalidConfigurationError string | ExternalFailure string

text \<open>
  The loop \<^verbatim>\<open>for (const archs of doBuildArchs) await this.buildInstaller(archs)\<close>:
  the parameter \<open>buildOne\<close> stands for \<^verbatim>\<open>this.buildInstaller\<close> and tells for each
  architecture map whether the call throws. The loop stops at the first throw. The
  result is the list of calls made, in order, and the error (if any).
\<close>

fun runBuilds :: "(ArchMap \<Rightarrow> error option) \<Rightarrow> ArchMap list \<Rightarrow> ArchMap list \<times> error option" where
  "runBuilds buildOne [] = ([], None)"
| "runBuilds buildOne (a # as) =
     (case buildOne a of
        Some e \<Rightarrow> ([a], Some e)
      | None \<Rightarrow> (let (calls, r) = runBuilds buildOne as in (a # calls, r)))"

text \<open>
  \<^verbatim>\<open>build(appOutDir, arch)\<close> registers the architecture and, when separate installers
  are built, calls \<^verbatim>\<open>buildInstaller\<close> at once with a one-entry map. The result is the
  new target state and the calls made.
\<close>

definition build :: "(ArchMap \<Rightarrow> error option) \<Rightarrow> string \<Rightarrow> Arch \<Rightarrow> NsisTarget
    \<Rightarrow> NsisTarget \<times> ArchMap list \<times> error option" where
  "build buildOne appOutDir arch t =
     (let t' = t\<lparr>archs := AList.update arch appOutDir (archs t)\<rparr>
      in if \<not> shouldBuildUniversalInstaller t'
         then (t', runBuilds buildOne [[(arch, appOutDir)]])
         else (t', [], None))"

text \<open>
  The set \<^verbatim>\<open>builds\<close> of \<^verbatim>\<open>finishBuild\<close>. It is a \<^verbatim>\<open>Set\<close> of \<^verbatim>\<open>Map\<close> objects,
  compared by identity; each added map is a fresh object, so nothing is ever merged and
  the set is the list of its insertions. \<open>pattern\<close> is the result of
  \<^verbatim>\<open>packager.artifactPatternConfig\<close>, a collaborator.
\<close>

definition builds :: "string \<Rightarrow> NsisTarget \<Rightarrow> ArchMap list" where
  "builds pattern t =
     (if str_includes pattern ''${arch}'' \<and> length (archs t) > 1
      then [archs t] @ map (\<lambda>(arch, appOutDir). [(arch, appOutDir)]) (archs t)
      else [archs t])"

definition finishBuild :: "(ArchMap \<Rightarrow> error option) \<Rightarrow> string \<Rightarrow> NsisTarget
    \<Rightarrow> ArchMap list \<times> error option" where
  "finishBuild buildOne pattern t =
     (if \<not> shouldBuildUniversalInstaller t then ([], None)
      else runBuilds buildOne (builds pattern t))"

subsection \<open>Waiting for the output file: \<^verbatim>\<open>ensureNotBusy\<close>\<close>

text \<open>
  The three outcomes of \<^verbatim>\<open>fs.open(outFile, "r+", callback)\<close> that \<^verbatim>\<open>isBusy\<close> tells
  apart: an error whose code is \<^verbatim>\<open>EBUSY\<close>, any other failure (no file descriptor), and
  an open file descriptor, which is closed again.
\<close>

datatype OpenResult = EBUSY | OtherError | Opened

text \<open>
  What the probe loop has done so far: the calls of \<^verbatim>\<open>fs.open\<close> and \<^verbatim>\<open>fs.close\<close>,
  the \<^verbatim>\<open>log.info\<close> messages, the \<^verbatim>\<open>setTimeout(resolve, 2000)\<close> delays and the time
  spent in them.
\<close>

record ProbeState =
  opens :: nat
  closes :: nat
  infos :: nat
  delays :: nat
  waited_ms :: nat

text \<open>
  The inner function \<^verbatim>\<open>isBusy(wasBusyBefore)\<close>. The file system is a parameter: the
  result of the \<open>n\<close>-th call of \<^verbatim>\<open>fs.open\<close>. The promise resolves (\<open>Some\<close>) when the
  open does not fail with \<^verbatim>\<open>EBUSY\<close>; otherwise the function waits 2000 ms and calls
  itself. The source has no counter and no rejection in this loop, so the recursion is
  not bounded: a promise that never settles is the value \<open>None\<close>.
\<close>

partial_function (option) isBusy ::
  "(nat \<Rightarrow> OpenResult) \<Rightarrow> bool \<Rightarrow> ProbeState \<Rightarrow> ProbeState option" where
  "isBusy fs_open wasBusyBefore s =
     (case fs_open (opens s) of
        EBUSY \<Rightarrow>
          isBusy fs_open True
            (s\<lparr>opens := opens s + 1,
               infos := (if \<not> wasBusyBefore then infos s + 1 else infos s),
               delays := delays s + 1,
               waited_ms := waited_ms s + 2000\<rparr>)
      | OtherError \<Rightarrow> Some (s\<lparr>opens := opens s + 1\<rparr>)
      | Opened \<Rightarrow> Some (s\<lparr>opens := opens s + 1, closes := closes s + 1\<rparr>))"

declare isBusy.simps [code]

definition ensureNotBusy :: "(nat \<Rightarrow> OpenResult) \<Rightarrow> ProbeState option" where
  "ensureNotBusy fs_open =
     isBusy fs_open False \<lparr>opens = 0, closes = 0, infos = 0, delays = 0, waited_ms = 0\<rparr>"

text \<open>Two file systems: a file that stays locked, and one locked for the first \<open>k\<close> probes.\<close>

definition alwaysLocked :: "nat \<Rightarrow> OpenResult" where
  "alwaysLocked n = EBUSY"

definition lockedFor :: "nat \<Rightarrow> nat \<Rightarrow> OpenResult" where
  "lockedFor k n = (if n < k then EBUSY else Opened)"

subsection \<open>The package hash define: base64 to upper-case hexadecimal\<close>

type_synonym u8 = "8 word"

text \<open>
  Modelled from the spec: the content hash that the hashing collaborator supplies
  (\<^verbatim>\<open>hashFile\<close>, not among the sources) is the base64 form of the digest bytes: standard
  alphabet, padded with \<^verbatim>\<open>=\<close> to a multiple of four characters.
\<close>

definition b64char :: "nat \<Rightarrow> char" where
  "b64char i =
     (if i < 26 then char_of (65 + i)
      else if i < 52 then char_of (71 + i)
      else if i < 62 then char_of (i - 4)
      else if i = 62 then CHR ''+'' else CHR ''/'')"

fun base64_encode :: "u8 list \<Rightarrow> string" where
  "base64_encode (x # y # z # rest) =
     [b64char (unat x div 4),
      b64char ((unat x mod 4) * 16 + unat y div 16),
      b64char ((unat y mod 16) * 4 + unat z div 64),
      b64char (unat z mod 64)] @ base64_encode rest"
| "base64_encode [x, y] =
     [b64char (unat x div 4),
      b64char ((unat x mod 4) * 16 + unat y div 16),
      b64char ((unat y mod 16) * 4),
      CHR ''='']"
| "base64_encode [x] =
     [b64char (unat x div 4), b64char ((unat x mod 4) * 16), CHR ''='', CHR ''='']"
| "base64_encode [] = []"

text \<open>
  \<^verbatim>\<open>Buffer.from(s, "base64")\<close> of the Node.js runtime. The decoder is lenient: it
  accepts the standard and the URL-safe alphabet, skips every other character, stops at
  the first \<^verbatim>\<open>=\<close>, and writes a byte as soon as the sextets read so far hold one
  (two sextets give one byte, three give two, four give three).
\<close>

definition unbase64 :: "char \<Rightarrow> nat option" where
  "unbase64 c =
     (let n = (of_char c :: nat) in
      if 65 \<le> n \<and> n \<le> 90 then Some (n - 65)
      else if 97 \<le> n \<and> n \<le> 122 then Some (n - 71)
      else if 48 \<le> n \<and> n \<le> 57 then Some (n + 4)
      else if c = CHR ''+'' \<or> c = CHR ''-'' then Some 62
      else if c = CHR ''/'' \<or> c = CHR ''_'' then Some 63
      else None)"

fun sextets :: "string \<Rightarrow> nat list" where
  "sextets [] = []"
| "sextets (c # cs) =
     (case unbase64 c of
        Some v \<Rightarrow> v # sextets cs
      | None \<Rightarrow> if c = CHR ''='' then [] else sextets cs)"

fun from_sextets :: "nat list \<Rightarrow> u8 list" where
  "from_sextets (a # b # c # d # rest) =
     [of_nat (a * 4 + b div 16), of_nat ((b mod 16) * 16 + c div 4), of_nat ((c mod 4) * 64 + d)]
     @ from_sextets rest"
| "from_sextets [a, b, c] = [of_nat (a * 4 + b div 16), of_nat ((b mod 16) * 16 + c div 4)]"
| "from_sextets [a, b] = [of_nat (a * 4 + b div 16)]"
| "from_sextets [a] = []"
| "from_sextets [] = []"

definition base64_decode :: "string \<Rightarrow> u8 list" where
  "base64_decode s = from_sextets (sextets s)"

text \<open>\<^verbatim>\<open>buffer.toString("hex")\<close>: two lower-case hexadecimal digits for each byte.\<close>

definition hexdigit :: "nat \<Rightarrow> char" where
  "hexdigit n = (if n < 10 then char_of (48 + n) else char_of (87 + n))"

definition hex_encode :: "u8 list \<Rightarrow> string" where
  "hex_encode bs = concat (map (\<lambda>b. [hexdigit (unat b div 16), hexdigit (unat b mod 16)]) bs)"

text \<open>
  \<^verbatim>\<open>String.prototype.toUpperCase\<close> on the characters a string of hexadecimal digits can
  hold: the ASCII letters \<^verbatim>\<open>a\<close> to \<^verbatim>\<open>z\<close> become \<^verbatim>\<open>A\<close> to \<^verbatim>\<open>Z\<close>, every other
  ASCII character stays.
\<close>

definition toUpperCase :: "string \<Rightarrow> string" where
  "toUpperCase s =
     map (\<lambda>c. let n = (of_char c :: nat) in if 97 \<le> n \<and> n \<le> 122 then char_of (n - 32) else c) s"

text \<open>
  The value of the defines \<^verbatim>\<open>APP_64_HASH\<close>, \<^verbatim>\<open>APP_ARM64_HASH\<close> and \<^verbatim>\<open>APP_32_HASH\<close>:
  \<^verbatim>\<open>Buffer.from(fileInfo.sha512, "base64").toString("hex").toUpperCase()\<close>.
\<close>

definition hashDefine :: "string \<Rightarrow> string" where
  "hashDefine sha512 = toUpperCase (hex_encode (base64_decode sha512))"

text \<open>
  Modelled from the spec: "decoding the hex-encoded define back to bytes". No function
  of the sources decodes the define; this is the usual decoder: two hexadecimal digits of
  either case for each byte, \<open>None\<close> on any other input.
\<close>

definition hexval :: "char \<Rightarrow> nat option" where
  "hexval c =
     (let n = (of_char c :: nat) in
      if 48 \<le> n \<and> n \<le> 57 then Some (n - 48)
      else if 65 \<le> n \<and> n \<le> 70 then Some (n - 55)
      else if 97 \<le> n \<and> n \<le> 102 then Some (n - 87)
      else None)"

fun hex_decode :: "string \<Rightarrow> u8 list option" where
  "hex_decode [] = Some []"
| "hex_decode [c] = None"
| "hex_decode (c # d # cs) =
     (case (hexval c, hexval d, hex_decode cs) of
        (Some h, Some l, Some bs) \<Rightarrow> Some (of_nat (h * 16 + l) # bs)
      | _ \<Rightarrow> None)"

subsection \<open>The defines table and the collaborators of \<^verbatim>\<open>buildInstaller\<close>\<close>

text \<open>
  A define is a flag without value (\<^verbatim>\<open>defines.X = null\<close>), a string or a number. The
  object \<^verbatim>\<open>defines\<close> is a map from names to such values.
\<close>

datatype DefineValue = Flag | Str string | Num nat

type_synonym Defines = "string \<rightharpoonup> DefineValue"

text \<open>The backslash, which the string literals of the code contain.\<close>

definition backslash :: char where
  "backslash = CHR 0x5C"

text \<open>\<^verbatim>\<open>a || b\<close> on optional strings: the empty string is falsy, as \<^verbatim>\<open>null\<close> is.\<close>

definition orElse :: "string option \<Rightarrow> string option \<Rightarrow> string option" where
  "orElse a b = (case a of Some s \<Rightarrow> if s = [] then b else Some s | None \<Rightarrow> b)"

text \<open>\<^verbatim>\<open>use(value, task)\<close> of builder-util: the task runs when the value is not null.\<close>

definition use :: "string option \<Rightarrow> string \<Rightarrow> Defines \<Rightarrow> Defines" where
  "use v k d = (case v of None \<Rightarrow> d | Some it \<Rightarrow> d(k \<mapsto> Str it))"

text \<open>The assignment \<^verbatim>\<open>if (c) defines.K = null\<close>, which most options come down to.\<close>

definition setFlagIf :: "bool \<Rightarrow> string \<Rightarrow> Defines \<Rightarrow> Defines" where
  "setFlagIf c k d = (if c then d(k \<mapsto> Flag) else d)"

text \<open>\<^verbatim>\<open>guid.replace(/\\/g, " - ")\<close>: every backslash becomes \<^verbatim>\<open>" - "\<close>.\<close>

definition replaceBackslashes :: "string \<Rightarrow> string" where
  "replaceBackslashes s = concat (map (\<lambda>c. if c = backslash then '' - '' else [c]) s)"

text \<open>\<^verbatim>\<open>Number.prototype.toString\<close> on a natural number: its decimal digits.\<close>

fun natToString :: "nat \<Rightarrow> string" where
  "natToString n =
     (if n < 10 then [char_of (48 + n)]
      else natToString (n div 10) @ [char_of (48 + n mod 10)])"

declare natToString.simps [simp del]

record AppInfo =
  appId :: string
  appName :: string
  productName :: string
  productFilename :: string
  description :: string
  version :: string
  shortVersion :: "string option"
  companyName :: "string option"
  updaterCacheDirName :: string

record PackageFileInfo =
  path :: string
  fileSize :: nat
  sha512 :: string

record PackResult =
  fileInfo :: PackageFileInfo
  unpackedSize :: nat

datatype DesktopShortcutCreationPolicy = FRESH_INSTALL | ALWAYS | NEVER

text \<open>The result of \<^verbatim>\<open>getEffectiveOptions(options, packager)\<close>, as far as it is read.\<close>

record CommonOptions =
  menuCategory :: "string option"
  shortcutName :: string
  isCreateDesktopShortcut :: DesktopShortcutCreationPolicy
  isCreateStartMenuShortcut :: bool

text \<open>
  The packager and the helpers that \<^verbatim>\<open>buildInstaller\<close> calls and that are not among the
  sources, each as the value or function it returns: application metadata, resource
  lookup, UUID derivation, the packing of an architecture (\<^verbatim>\<open>packageHelper.packArch\<close>),
  the archive listing (\<^verbatim>\<open>exec(path7za, ["l", file])\<close>), the hook
  \<^verbatim>\<open>effectiveOptionComputed\<close>, the file-name constants of builder-util-runtime and the
  functions of the \<^verbatim>\<open>path\<close> module.
\<close>

record Packager =
  appInfo :: AppInfo
  projectDir :: string
  buildResourcesDir :: string
  homepage :: "string option"
  compression :: "string option"
  getResource :: "string option \<Rightarrow> string \<Rightarrow> string option"
  getIconPath :: "string option"
  expandMacro :: "string \<Rightarrow> string"
  effectiveOptions :: CommonOptions
  uuidV5 :: "string \<Rightarrow> string"
  getWindowsInstallationDirName :: "bool \<Rightarrow> string"
  getWindowsInstallationAppPackageName :: "string \<Rightarrow> string"
  expandArtifactNamePattern :: "Arch option \<Rightarrow> string"
  packArch :: "Arch \<Rightarrow> error + PackResult"
  exec7zaList :: "string \<Rightarrow> error + string"
  ksuid :: string
  effectiveOptionComputed :: "(Defines \<Rightarrow> bool) option"
  CURRENT_APP_PACKAGE_FILE_NAME :: string
  CURRENT_APP_INSTALLER_FILE_NAME :: string
  path_join :: "string \<Rightarrow> string \<Rightarrow> string"
  path_basename :: "string \<Rightarrow> string"
  path_resolve :: "string \<Rightarrow> string \<Rightarrow> string"

text \<open>
  The update metadata: what \<^verbatim>\<open>createNsisWebDifferentialUpdateInfo\<close> or
  \<^verbatim>\<open>createBlockmap\<close> returned (the collaborators' part, kept as the list of the
  files it describes) and the property \<^verbatim>\<open>isAdminRightsRequired\<close>, \<open>False\<close> when the
  property is not set.
\<close>

type_synonym UpdatePayload = "(string \<times> PackageFileInfo) list"

record UpdateInfo =
  payload :: UpdatePayload
  isAdminRightsRequired :: bool

text \<open>What the build does to the outside, in order.\<close>

datatype Event =
    ArtifactBuildStarted string
  | PackArch Arch
  | PackageCompleted string
  | Exec7zaList string
  | Warn string
  | OutFileProbes nat
  | Makensis string bool
  | UninstallerReaderExec string
  | VmExec string
  | Polls nat
  | ExecWine string
  | Sign string
  | Unlink string
  | InstallerCompleted string "UpdateInfo option"

subsection \<open>Packing the architectures and estimating the size\<close>

text \<open>
  The regular expression \<^verbatim>\<open>/(\d+)\s+\d+\s+\d+\s+files/\<close> on the output of the archive
  listing. The classes \<^verbatim>\<open>\d\<close> and \<^verbatim>\<open>\s\<close> are disjoint and neither holds \<^verbatim>\<open>f\<close>, so
  at a given start the greedy match is the only one: each run is taken whole. The
  search returns the first group of the leftmost match. Characters are bytes here:
  the white space is the ASCII white space.
\<close>

definition isDigit :: "char \<Rightarrow> bool" where
  "isDigit c = (48 \<le> (of_char c :: nat) \<and> (of_char c :: nat) \<le> 57)"

definition isSpace :: "char \<Rightarrow> bool" where
  "isSpace c = ((of_char c :: nat) \<in> {9, 10, 11, 12, 13, 32})"

definition matchAt :: "string \<Rightarrow> string option" where
  "matchAt s =
     (let d1 = takeWhile isDigit s; r1 = dropWhile isDigit s;
          s1 = takeWhile isSpace r1; r2 = dropWhile isSpace r1;
          d2 = takeWhile isDigit r2; r3 = dropWhile isDigit r2;
          s2 = takeWhile isSpace r3; r4 = dropWhile isSpace r3;
          d3 = takeWhile isDigit r4; r5 = dropWhile isDigit r4;
          s3 = takeWhile isSpace r5; r6 = dropWhile isSpace r5
      in if d1 \<noteq> [] \<and> s1 \<noteq> [] \<and> d2 \<noteq> [] \<and> s2 \<noteq> [] \<and> d3 \<noteq> [] \<and> s3 \<noteq> []
            \<and> take 5 r6 = ''files''
         then Some d1 else None)"

fun regexExec :: "string \<Rightarrow> string option" where
  "regexExec [] = None"
| "regexExec (c # cs) =
     (case matchAt (c # cs) of Some g \<Rightarrow> Some g | None \<Rightarrow> regexExec cs)"

text \<open>
  \<^verbatim>\<open>String.prototype.trim\<close> and \<^verbatim>\<open>parseInt(digits, 10)\<close> on a run of digits. Sizes
  are natural numbers here; JavaScript numbers are exact for them below \<open>2 ^ 53\<close>.
\<close>

definition trim :: "string \<Rightarrow> string" where
  "trim s = rev (dropWhile isSpace (rev (dropWhile isSpace s)))"

definition parseInt :: "string \<Rightarrow> nat" where
  "parseInt ds = foldl (\<lambda>n c. 10 * n + ((of_char c :: nat) - 48)) 0 ds"

text \<open>
  The size that the listing of one archive reports, \<open>None\<close> when the output does not
  match (the code then only logs a warning).
\<close>

definition listedSize :: "string \<Rightarrow> nat option" where
  "listedSize output = map_option parseInt (regexExec (trim output))"

definition defineKey :: "Arch \<Rightarrow> string" where
  "defineKey arch =
     (if arch = x64 then ''APP_64'' else if arch = arm64 then ''APP_ARM64'' else ''APP_32'')"

definition archName :: "Arch \<Rightarrow> string" where
  "archName arch =
     (case arch of ia32 \<Rightarrow> ''ia32'' | x64 \<Rightarrow> ''x64'' | armv7l \<Rightarrow> ''armv7l''
      | arm64 \<Rightarrow> ''arm64'' | universal \<Rightarrow> ''universal'')"

text \<open>
  The local state of \<^verbatim>\<open>buildInstaller\<close> while the architectures are packed: the
  defines, \<^verbatim>\<open>estimatedSize\<close>, \<^verbatim>\<open>packageFiles\<close> and the events so far.
\<close>

type_synonym PackState = "Defines \<times> nat \<times> UpdatePayload \<times> Event list"

text \<open>
  The body of the callback in \<^verbatim>\<open>Promise.all(Array.from(archs.keys()).map(async arch => ...))\<close>
  for one architecture. A rejection of \<^verbatim>\<open>packArch\<close> or of the listing process is an
  error; a listing that does not match is not.
\<close>

definition packOne :: "Packager \<Rightarrow> NsisTarget \<Rightarrow> Arch \<Rightarrow> PackState \<Rightarrow> error option \<times> PackState" where
  "packOne p t arch st =
     (case st of (defines, estimatedSize, packageFiles, evs) \<Rightarrow>
      (case packArch p arch of
         Inl e \<Rightarrow> (Some e, (defines, estimatedSize, packageFiles, evs @ [PackArch arch]))
       | Inr r \<Rightarrow>
          (let file = path (fileInfo r);
               k = defineKey arch;
               defines = defines(k \<mapsto> Str file);
               defines = defines(k @ ''_NAME'' \<mapsto> Str (path_basename p file));
               defines = defines(k @ ''_HASH'' \<mapsto> Str (hashDefine (sha512 (fileInfo r))));
               defines = defines(k @ ''_UNPACKED_SIZE'' \<mapsto>
                            Str (natToString ((unpackedSize r + 1023) div 1024)));
               evs = evs @ [PackArch arch];
               evs = (if isWebInstaller t then evs @ [PackageCompleted file] else evs);
               packageFiles = (if isWebInstaller t
                               then AList.update (archName arch) (fileInfo r) packageFiles
                               else packageFiles);
               evs = evs @ [Exec7zaList file]
           in case exec7zaList p file of
                Inl e \<Rightarrow> (Some e, (defines, estimatedSize, packageFiles, evs))
              | Inr output \<Rightarrow>
                 (case listedSize output of
                    None \<Rightarrow>
                      (None, (defines, estimatedSize, packageFiles,
                              evs @ [Warn ''cannot compute size of app package'']))
                  | Some n \<Rightarrow> (None, (defines, estimatedSize + n, packageFiles, evs))))))"

text \<open>
  \<^verbatim>\<open>Promise.all\<close> over the architectures. The callbacks write to the defines of their
  own slot and add to \<^verbatim>\<open>estimatedSize\<close>, so the order in which they complete does not
  change the result when the slots differ; they are run here in the order of the map,
  and the first rejection is the rejection of the whole.
\<close>

fun packAll :: "Packager \<Rightarrow> NsisTarget \<Rightarrow> Arch list \<Rightarrow> PackState \<Rightarrow> error option \<times> PackState" where
  "packAll p t [] st = (None, st)"
| "packAll p t (arch # rest) st =
     (case packOne p t arch st of
        (Some e, st') \<Rightarrow> (Some e, st')
      | (None, st') \<Rightarrow> packAll p t rest st')"

text \<open>
  For stating what \<^verbatim>\<open>estimatedSize\<close> holds after the packing: the size that the listing
  of the package of one architecture reports (\<open>None\<close> when the package or its listing
  failed or the listing does not match), and the sum of the reported sizes over the
  architectures of a build.
\<close>

definition listedSizeOf :: "Packager \<Rightarrow> Arch \<Rightarrow> nat option" where
  "listedSizeOf p arch =
     (case packArch p arch of
        Inl e \<Rightarrow> None
      | Inr r \<Rightarrow>
          (case exec7zaList p (path (fileInfo r)) of
             Inl e \<Rightarrow> None
           | Inr output \<Rightarrow> listedSize output))"

definition totalListedSize :: "Packager \<Rightarrow> Arch list \<Rightarrow> nat" where
  "totalListedSize p as =
     sum_list (map (\<lambda>arch. case listedSizeOf p arch of None \<Rightarrow> 0 | Some n \<Rightarrow> n) as)"

text \<open>The packing of an architecture and the listing of its package both succeed.\<close>

definition packs :: "Packager \<Rightarrow> Arch \<Rightarrow> bool" where
  "packs p arch =
     (case packArch p arch of
        Inl e \<Rightarrow> False
      | Inr r \<Rightarrow> (case exec7zaList p (path (fileInfo r)) of Inl e \<Rightarrow> False | Inr output \<Rightarrow> True))"

text \<open>An event is a run of the compiler.\<close>

fun isMakensis :: "Event \<Rightarrow> bool" where
  "isMakensis (Makensis outFile stub) = True"
| "isMakensis _ = False"

subsection \<open>The defines of the installer modes: \<^verbatim>\<open>configureDefines\<close>\<close>

definition orDefault :: "string option \<Rightarrow> string \<Rightarrow> string" where
  "orDefault a b = (case a of Some s \<Rightarrow> if s = [] then b else s | None \<Rightarrow> b)"

text \<open>
  The tasks that \<^verbatim>\<open>configureDefines\<close> hands to its \<^verbatim>\<open>AsyncTaskManager\<close>. Each looks a
  resource up and then writes defines that no other task and no later statement of
  \<^verbatim>\<open>configureDefines\<close> writes, so they are applied when \<^verbatim>\<open>awaitTasks\<close> joins them.
\<close>

definition installerHeaderIconTask :: "Packager \<Rightarrow> NsisOptions \<Rightarrow> Defines \<Rightarrow> Defines" where
  "installerHeaderIconTask p opts defines =
     (case getResource p (installerHeaderIcon opts) ''installerHeaderIcon.ico'' of
        None \<Rightarrow> defines
      | Some icon \<Rightarrow> defines(''HEADER_ICO'' \<mapsto> Str icon))"

definition installerHeaderTask :: "Packager \<Rightarrow> NsisOptions \<Rightarrow> Defines \<Rightarrow> Defines" where
  "installerHeaderTask p opts defines =
     (case getResource p (installerHeader opts) ''installerHeader.bmp'' of
        None \<Rightarrow> defines
      | Some header \<Rightarrow>
          defines(''MUI_HEADERIMAGE'' \<mapsto> Flag, ''MUI_HEADERIMAGE_RIGHT'' \<mapsto> Flag,
                  ''MUI_HEADERIMAGE_BITMAP'' \<mapsto> Str header))"

definition metroBitmap :: string where
  "metroBitmap = ''${NSISDIR}'' @ [backslash] @ ''Contrib'' @ [backslash] @ ''Graphics''
     @ [backslash] @ ''Wizard'' @ [backslash] @ ''nsis3-metro.bmp''"

definition sidebarTask :: "Packager \<Rightarrow> NsisOptions \<Rightarrow> Defines \<Rightarrow> Defines" where
  "sidebarTask p opts defines =
     (let bitmap = orDefault (getResource p (installerSidebar opts) ''installerSidebar.bmp'')
                     metroBitmap
      in defines(''MUI_WELCOMEFINISHPAGE_BITMAP'' \<mapsto> Str bitmap,
                 ''MUI_UNWELCOMEFINISHPAGE_BITMAP'' \<mapsto>
                    Str (orDefault (getResource p (uninstallerSidebar opts) ''uninstallerSidebar.bmp'')
                           bitmap)))"

definition uninstallerIconTask :: "Packager \<Rightarrow> NsisOptions \<Rightarrow> Defines \<Rightarrow> Defines" where
  "uninstallerIconTask p opts defines =
     (case getResource p (uninstallerIcon opts) ''uninstallerIcon.ico'' of
        None \<Rightarrow> defines
      | Some icon \<Rightarrow> defines(''UNINSTALLER_ICON'' \<mapsto> Str icon, ''MUI_UNICON'' \<mapsto> Str icon))"

definition awaitTasks :: "(Defines \<Rightarrow> Defines) list \<Rightarrow> Defines \<Rightarrow> Defines" where
  "awaitTasks tasks defines = fold (\<lambda>task d. task d) tasks defines"

text \<open>
  \<^verbatim>\<open>configureDefines(oneClick, defines)\<close>; the parameter \<^verbatim>\<open>oneClick\<close> is
  \<open>oneClickMode\<close> here, the name being taken by the option. The two \<^verbatim>\<open>throw\<close>
  statements are the \<open>Inl\<close> results; the defines written before a throw are lost with
  the build.
\<close>

definition configureDefines :: "Packager \<Rightarrow> NsisOptions \<Rightarrow> bool \<Rightarrow> Defines \<Rightarrow> error + Defines" where
  "configureDefines p opts oneClickMode defines =
     (let defines =
            (if oneClickMode
             then setFlagIf (runAfterFinish opts \<noteq> Some False) ''RUN_AFTER_FINISH''
                    (defines(''ONE_CLICK'' \<mapsto> Flag))
             else setFlagIf (allowElevation opts \<noteq> Some False)
                    ''MULTIUSER_INSTALLMODE_ALLOW_ELEVATION''
                    (setFlagIf (runAfterFinish opts = Some False) ''HIDE_RUN_AFTER_FINISH'' defines));
          tasks =
            (if oneClickMode then [installerHeaderIconTask p opts]
             else [installerHeaderTask p opts, sidebarTask p opts]);
          defines = setFlagIf (perMachine opts = Some True) ''INSTALL_MODE_PER_ALL_USERS'' defines;
          defines = setFlagIf (selectPerMachineByDefault opts = Some True)
                      ''INSTALL_MODE_PER_ALL_USERS_DEFAULT'' defines;
          defines = setFlagIf (\<not> oneClickMode \<or> perMachine opts = Some True)
                      ''INSTALL_MODE_PER_ALL_USERS_REQUIRED'' defines
      in if truthy (allowToChangeInstallationDirectory opts) \<and> oneClickMode
         then Inl (InvalidConfigurationError
                ''allowToChangeInstallationDirectory makes sense only for assisted installer (please set oneClick to false)'')
         else
          (let defines = setFlagIf (truthy (allowToChangeInstallationDirectory opts))
                           ''allowToChangeInstallationDirectory'' defines
           in if truthy (allowToAddShortcut opts) \<and> oneClickMode
              then Inl (InvalidConfigurationError
                     ''allowToAddShortcut makes sense only for assisted installer (please set oneClick to false)'')
              else
               (let defines = setFlagIf (truthy (allowToAddShortcut opts))
                                ''ALLOW_TO_ADD_SHORTCUT'' defines;
                    defines = setFlagIf (truthy (removeDefaultUninstallWelcomePage opts))
                                ''removeDefaultUninstallWelcomePage'' defines;
                    commonOptions = effectiveOptions p;
                    defines = use (menuCategory commonOptions) ''MENU_FILENAME'' defines;
                    defines = defines(''SHORTCUT_NAME'' \<mapsto> Str (shortcutName commonOptions));
                    defines = setFlagIf (truthy (deleteAppDataOnUninstall opts))
                                ''DELETE_APP_DATA_ON_UNINSTALL'' defines;
                    tasks = tasks @ [uninstallerIconTask p opts];
                    defines = defines(''UNINSTALL_DISPLAY_NAME'' \<mapsto>
                                Str (expandMacro p
                                       (orDefault (uninstallDisplayName opts)
                                          ''${productName} ${version}'')));
                    defines = setFlagIf (isCreateDesktopShortcut commonOptions = NEVER)
                                ''DO_NOT_CREATE_DESKTOP_SHORTCUT'' defines;
                    defines = setFlagIf (isCreateDesktopShortcut commonOptions = ALWAYS)
                                ''RECREATE_DESKTOP_SHORTCUT'' defines;
                    defines = setFlagIf (\<not> isCreateStartMenuShortcut commonOptions)
                                ''DO_NOT_CREATE_START_MENU_SHORTCUT'' defines;
                    defines = setFlagIf (displayLanguageSelector opts = Some True)
                                ''DISPLAY_LANG_SELECTOR'' defines
                in Inr (awaitTasks tasks defines))))"

text \<open>\<^verbatim>\<open>configureDefinesForAllTypeOfInstaller(defines)\<close>.\<close>

definition configureDefinesForAllTypeOfInstaller :: "Packager \<Rightarrow> NsisTarget \<Rightarrow> Defines \<Rightarrow> Defines" where
  "configureDefinesForAllTypeOfInstaller p t defines =
     (let info = appInfo p;
          defines = use (companyName info) ''COMPANY_NAME'' defines;
          defines = (if defines ''APP_FILENAME'' \<noteq> Some (Str (productFilename info))
                     then defines(''APP_PRODUCT_FILENAME'' \<mapsto> Str (productFilename info))
                     else defines);
          defines = (if isWebInstaller t
                     then defines(''APP_PACKAGE_STORE_FILE'' \<mapsto>
                            Str (updaterCacheDirName info @ [backslash] @ CURRENT_APP_PACKAGE_FILE_NAME p))
                     else defines(''APP_INSTALLER_STORE_FILE'' \<mapsto>
                            Str (updaterCacheDirName info @ [backslash] @ CURRENT_APP_INSTALLER_FILE_NAME p)))
      in if \<not> isWebInstaller t
            \<and> (defines ''APP_BUILD_DIR'' = None \<or> defines ''APP_BUILD_DIR'' = Some Flag)
         then (setFlagIf (truthy (useZip (options t))) ''ZIP_COMPRESSION'' defines)
                (''COMPRESSION_METHOD'' \<mapsto> Str (if truthy (useZip (options t)) then ''zip'' else ''7z''))
         else defines)"

text \<open>The portable branch of \<^verbatim>\<open>buildInstaller\<close> (the options read as \<^verbatim>\<open>PortableOptions\<close>).\<close>

definition portableDefines :: "Packager \<Rightarrow> NsisOptions \<Rightarrow> Defines \<Rightarrow> Defines" where
  "portableDefines p opts defines =
     (let defines = defines(''REQUEST_EXECUTION_LEVEL'' \<mapsto>
                       Str (orDefault (requestExecutionLevel opts) ''user''));
          defines =
            (case unpackDirName opts of
               None \<Rightarrow> defines(''UNPACK_DIR_NAME'' \<mapsto> Str (ksuid p))
             | Some (IsString s) \<Rightarrow> defines(''UNPACK_DIR_NAME'' \<mapsto> Str (orDefault (Some s) (ksuid p)))
             | Some (IsBoolean b) \<Rightarrow>
                 (if \<not> b then defines(''UNPACK_DIR_NAME'' \<mapsto> Str (ksuid p)) else defines))
      in case splashImage opts of
           None \<Rightarrow> defines
         | Some img \<Rightarrow> defines(''SPLASH_IMAGE'' \<mapsto> Str (path_resolve p (projectDir p) img)))"

subsection \<open>The defines of one installer: the first part of \<^verbatim>\<open>buildInstaller\<close>\<close>

definition uninstallRegistryKey2 :: "string \<Rightarrow> string" where
  "uninstallRegistryKey2 g = ''Software'' @ [backslash] @ ''Microsoft'' @ [backslash] @ ''Windows''
     @ [backslash] @ ''CurrentVersion'' @ [backslash] @ ''Uninstall'' @ [backslash] @ g"

text \<open>
  The object literal \<^verbatim>\<open>defines\<close> and the assignments up to the uninstall URLs. The
  local \<^verbatim>\<open>guid\<close> is \<open>g\<close> here.
\<close>

definition initialDefines :: "Packager \<Rightarrow> NsisOptions \<Rightarrow> bool \<Rightarrow> bool \<Rightarrow> Defines" where
  "initialDefines p opts oneClickMode isPerMachine =
     (let info = appInfo p;
          g = orDefault (guid opts) (uuidV5 p (appId info));
          uninstallAppKey = replaceBackslashes g;
          defines = [''APP_ID'' \<mapsto> Str (appId info),
                     ''APP_GUID'' \<mapsto> Str g,
                     ''UNINSTALL_APP_KEY'' \<mapsto> Str uninstallAppKey,
                     ''PRODUCT_NAME'' \<mapsto> Str (productName info),
                     ''PRODUCT_FILENAME'' \<mapsto> Str (productFilename info),
                     ''APP_FILENAME'' \<mapsto>
                        Str (getWindowsInstallationDirName p (\<not> oneClickMode \<or> isPerMachine)),
                     ''APP_DESCRIPTION'' \<mapsto> Str (description info),
                     ''VERSION'' \<mapsto> Str (version info),
                     ''PROJECT_DIR'' \<mapsto> Str (projectDir p),
                     ''BUILD_RESOURCES_DIR'' \<mapsto> Str (buildResourcesDir p),
                     ''APP_PACKAGE_NAME'' \<mapsto>
                        Str (getWindowsInstallationAppPackageName p (appName info))];
          defines = setFlagIf (truthy (debugLogging opts)) ''ENABLE_LOGGING_ELECTRON_BUILDER'' defines;
          defines = (if uninstallAppKey \<noteq> g
                     then defines(''UNINSTALL_REGISTRY_KEY_2'' \<mapsto> Str (uninstallRegistryKey2 g))
                     else defines);
          defines = use (orElse (uninstallUrlHelp opts) (homepage p)) ''UNINSTALL_URL_HELP'' defines;
          defines = use (orElse (uninstallUrlInfoAbout opts) (homepage p))
                      ''UNINSTALL_URL_INFO_ABOUT'' defines;
          defines = use (orElse (uninstallUrlUpdateInfo opts) (homepage p))
                      ''UNINSTALL_URL_UPDATE_INFO'' defines;
          defines = use (orElse (uninstallUrlReadme opts) (homepage p))
                      ''UNINSTALL_URL_README'' defines
      in defines)"

definition primaryArch :: "ArchMap \<Rightarrow> Arch option" where
  "primaryArch archMap = (case archMap of [(arch, dir)] \<Rightarrow> Some arch | _ \<Rightarrow> None)"

definition installerPath :: "Packager \<Rightarrow> NsisTarget \<Rightarrow> ArchMap \<Rightarrow> string" where
  "installerPath p t archMap =
     path_join p (outDir t) (expandArtifactNamePattern p (primaryArch archMap))"

definition appDirKey :: "Arch \<Rightarrow> string" where
  "appDirKey arch =
     (if arch = x64 then ''APP_DIR_64'' else if arch = arm64 then ''APP_DIR_ARM64''
      else ''APP_DIR_32'')"

text \<open>
  The icon of the installer: \<^verbatim>\<open>installerIcon\<close> (not for a portable target) or the
  application icon. For a portable target the icon is a command, not a define.
\<close>

definition iconDefines :: "Packager \<Rightarrow> NsisTarget \<Rightarrow> Defines \<Rightarrow> Defines" where
  "iconDefines p t defines =
     (let iconPath = orElse (if isPortable t then None
                             else getResource p (installerIcon (options t)) ''installerIcon.ico'')
                       (getIconPath p)
      in case iconPath of
           None \<Rightarrow> defines
         | Some icon \<Rightarrow>
             if isPortable t then defines
             else defines(''MUI_ICON'' \<mapsto> Str icon, ''MUI_UNICON'' \<mapsto> Str icon))"

text \<open>
  The three-way branch on the payload. A portable target with \<^verbatim>\<open>useZip\<close> only
  defines the application directories; the constant \<^verbatim>\<open>USE_NSIS_BUILT_IN_COMPRESSOR\<close> is
  \<^verbatim>\<open>false\<close>, so the second branch is never taken; every other build packs its
  architectures.
\<close>

definition packDefines :: "Packager \<Rightarrow> NsisTarget \<Rightarrow> ArchMap \<Rightarrow> PackState \<Rightarrow> error option \<times> PackState" where
  "packDefines p t archMap st =
     (case st of (defines, estimatedSize, packageFiles, evs) \<Rightarrow>
        if isPortable t \<and> truthy (useZip (options t))
        then (None, (fold (\<lambda>(arch, dir) d. d(appDirKey arch \<mapsto> Str dir)) archMap defines,
                     estimatedSize, packageFiles, evs))
        else packAll p t (map fst archMap) st)"

text \<open>
  \<^verbatim>\<open>ESTIMATED_SIZE\<close>, in kilobytes: \<^verbatim>\<open>Math.round(estimatedSize / 1024)\<close>, defined only
  when \<^verbatim>\<open>estimatedSize\<close> is not 0. On a natural number the rounding is
  \<open>(n + 512) div 1024\<close>.
\<close>

definition sizeDefines :: "nat \<Rightarrow> Defines \<Rightarrow> Defines" where
  "sizeDefines estimatedSize defines =
     (if estimatedSize \<noteq> 0
      then defines(''ESTIMATED_SIZE'' \<mapsto> Num ((estimatedSize + 512) div 1024))
      else defines)"

text \<open>The compression: only the define \<^verbatim>\<open>COMPRESS\<close>; the rest are commands.\<close>

definition compressionDefines :: "Packager \<Rightarrow> NsisTarget \<Rightarrow> Defines \<Rightarrow> Defines" where
  "compressionDefines p t defines =
     (if compression p = Some ''store'' then defines
      else if \<not> isWebInstaller t then defines(''COMPRESS'' \<mapsto> Str ''auto'')
      else defines)"

text \<open>
  \<^verbatim>\<open>buildInstaller\<close> from its start to the compression defines: the defines (with the
  package files of a web installer) or the error that ends the build, and the events up
  to there. Of the commands only \<^verbatim>\<open>OutFile\<close> matters later; it is \<open>installerPath\<close>.
\<close>

definition buildInstallerDefines :: "Packager \<Rightarrow> NsisTarget \<Rightarrow> ArchMap
    \<Rightarrow> (error + Defines \<times> UpdatePayload) \<times> Event list" where
  "buildInstallerDefines p t archMap =
     (let opts = options t;
          oneClickMode = (oneClick opts \<noteq> Some False);
          isPerMachine = (perMachine opts = Some True);
          evs = [ArtifactBuildStarted (installerPath p t archMap)];
          defines = iconDefines p t (initialDefines p opts oneClickMode isPerMachine)
      in case packDefines p t archMap (defines, 0, [], evs) of
           (Some e, (defines, estimatedSize, packageFiles, evs)) \<Rightarrow> (Inl e, evs)
         | (None, (defines, estimatedSize, packageFiles, evs)) \<Rightarrow>
            (let defines = configureDefinesForAllTypeOfInstaller p t defines
             in case (if isPortable t then Inr (portableDefines p opts defines)
                      else configureDefines p opts oneClickMode defines) of
                  Inl e \<Rightarrow> (Inl e, evs)
                | Inr defines \<Rightarrow>
                    (Inr (compressionDefines p t (sizeDefines estimatedSize defines), packageFiles),
                     evs)))"

subsection \<open>Compiling: \<^verbatim>\<open>executeMakensis\<close>, the uninstaller and the queued task\<close>

text \<open>
  The external processes and the platform, each as its outcome. The compiler and the
  probes of its output file are functions of the defines of the invocation, so that the
  compilation of the uninstaller stub and the compilation of the installer can end
  differently; \<open>True\<close> is success.
\<close>

record Tools =
  makensis :: "Defines \<Rightarrow> bool"
  openOutFile :: "Defines \<Rightarrow> nat \<Rightarrow> OpenResult"
  sign :: "string \<Rightarrow> bool"
  isWin :: bool
  isMacOsCatalina :: bool
  uninstallerReaderExec :: bool
  vmExec :: bool
  uninstallerExists :: "nat \<Rightarrow> bool"
  execWine :: bool
  createNsisWebDifferentialUpdateInfo ::
    "string \<Rightarrow> (string \<times> PackageFileInfo) list \<Rightarrow> UpdatePayload option"
  createBlockmap :: "string \<Rightarrow> error + UpdatePayload option"
  path_basename_ext :: "string \<Rightarrow> string \<Rightarrow> string"
  path_win32_join :: "string \<Rightarrow> string \<Rightarrow> string"

text \<open>The files on disk that the build writes and removes, and the events so far.\<close>

record World =
  files :: "string set"
  events :: "Event list"

definition emit :: "Event list \<Rightarrow> World \<Rightarrow> World" where
  "emit evs w = w\<lparr>events := events w @ evs\<rparr>"

text \<open>
  \<^verbatim>\<open>executeMakensis(defines, commands, script)\<close>: the probe of \<^verbatim>\<open>OutFile\<close>, then the
  compiler process, which writes \<^verbatim>\<open>OutFile\<close> when it succeeds. The result is \<open>None\<close>
  when the probe never settles. The serialisation of the defines into arguments and the
  script text are not part of the model; the event records the output file and whether
  the defines hold \<^verbatim>\<open>BUILD_UNINSTALLER\<close>.
\<close>

definition executeMakensis :: "Tools \<Rightarrow> Defines \<Rightarrow> string \<Rightarrow> World \<Rightarrow> (error option \<times> World) option" where
  "executeMakensis tools defines outFile w =
     (case ensureNotBusy (openOutFile tools defines) of
        None \<Rightarrow> None
      | Some probe \<Rightarrow>
          (let w = emit [OutFileProbes (delays probe),
                         Makensis outFile (defines ''BUILD_UNINSTALLER'' \<noteq> None)] w
           in if makensis tools defines
              then Some (None, w\<lparr>files := insert outFile (files w)\<rparr>)
              else Some (Some (ExternalFailure ''makensis''), w)))"

text \<open>
  The loop \<^verbatim>\<open>while (!(await exists(uninstallerPath)) && i++ < 100)\<close> with its delay of
  300 ms: \<open>i\<close> counts the delays, \<open>uninstallerExists i\<close> is the answer of the check
  made after \<open>i\<close> delays. The result is the number of delays.
\<close>

function waitForUninstaller :: "(nat \<Rightarrow> bool) \<Rightarrow> nat \<Rightarrow> nat" where
  "waitForUninstaller ex i =
     (if \<not> ex i \<and> i < 100 then waitForUninstaller ex (i + 1) else i)"
  by pat_completeness auto
termination
  by (relation "measure (\<lambda>(ex, i). 100 - i)") auto

declare waitForUninstaller.simps [simp del]

text \<open>
  The step of \<^verbatim>\<open>computeScriptAndSignUninstaller\<close> that runs the compiled stub so that it
  writes the uninstaller: the reader or, when it throws, the virtual machine and the
  polling loop on macOS Catalina; Wine (or Windows itself) otherwise.
\<close>

definition materializeUninstaller :: "Tools \<Rightarrow> string \<Rightarrow> string \<Rightarrow> World \<Rightarrow> error option \<times> World" where
  "materializeUninstaller tools installerFile uninstallerFile w =
     (if isMacOsCatalina tools
      then (if uninstallerReaderExec tools
            then (None, (emit [UninstallerReaderExec installerFile] w)
                          \<lparr>files := insert uninstallerFile (files w)\<rparr>)
            else (let w = emit [UninstallerReaderExec installerFile, Warn ''packager.vm is used'',
                                VmExec installerFile] w
                  in if \<not> vmExec tools then (Some (ExternalFailure ''vm.exec''), w)
                     else (let n = waitForUninstaller (uninstallerExists tools) 0;
                               w = emit [Polls n] w
                           in if uninstallerExists tools n
                              then (None, w\<lparr>files := insert uninstallerFile (files w)\<rparr>)
                              else (None, w))))
      else (let w = emit [ExecWine installerFile] w
            in if execWine tools
               then (None, w\<lparr>files := insert uninstallerFile (files w)\<rparr>)
               else (Some (ExternalFailure ''execWine''), w)))"

text \<open>
  \<^verbatim>\<open>computeScriptAndSignUninstaller(defines, commands, installerPath, sharedHeader, archs)\<close>.
  The defines are those of the uninstaller (\<^verbatim>\<open>definesUninstaller\<close>), returned as the
  function leaves them.
\<close>

definition uninstallerPath :: "Tools \<Rightarrow> Packager \<Rightarrow> NsisTarget \<Rightarrow> string \<Rightarrow> string" where
  "uninstallerPath tools p t installerFile =
     path_join p (outDir t) (path_basename_ext tools installerFile ''exe'' @ ''__uninstaller.exe'')"

definition computeScriptAndSignUninstaller ::
    "Tools \<Rightarrow> Packager \<Rightarrow> NsisTarget \<Rightarrow> Defines \<Rightarrow> string \<Rightarrow> World
     \<Rightarrow> ((error + Defines) \<times> World) option" where
  "computeScriptAndSignUninstaller tools p t defines installerFile w =
     (case getResource p (script (options t)) ''installer.nsi'' of
        Some customScriptPath \<Rightarrow> Some (Inr defines, w)
      | None \<Rightarrow>
         (let uninstallerFile = uninstallerPath tools p t installerFile;
              defines = defines(''BUILD_UNINSTALLER'' \<mapsto> Flag);
              defines = defines(''UNINSTALLER_OUT_FILE'' \<mapsto>
                          Str (if isWin tools then uninstallerFile
                               else path_win32_join tools ''Z:'' uninstallerFile))
          in case executeMakensis tools defines installerFile w of
               None \<Rightarrow> None
             | Some (Some e, w) \<Rightarrow> Some (Inl e, w)
             | Some (None, w) \<Rightarrow>
                (case materializeUninstaller tools installerFile uninstallerFile w of
                   (Some e, w) \<Rightarrow> Some (Inl e, w)
                 | (None, w) \<Rightarrow>
                    (let w = emit [Sign uninstallerFile] w
                     in if \<not> sign tools uninstallerFile
                        then Some (Inl (ExternalFailure ''sign''), w)
                        else Some (Inr (defines(''BUILD_UNINSTALLER'' := None,
                                                ''UNINSTALLER_OUT_FILE'' \<mapsto> Str uninstallerFile)), w)))))"

text \<open>\<^verbatim>\<open>unlink(file)\<close>: the file is removed; the promise rejects when there is none.\<close>

definition unlink :: "string \<Rightarrow> World \<Rightarrow> error option \<times> World" where
  "unlink f w =
     (let w = emit [Unlink f] w
      in if f \<in> files w then (None, w\<lparr>files := files w - {f}\<rparr>)
         else (Some (ExternalFailure ''unlink''), w))"

text \<open>
  The update metadata of the finished installer: what the collaborator returns, or
  nothing when the target is neither a web installer nor differential aware, and then
  the assignment \<^verbatim>\<open>updateInfo.isAdminRightsRequired = true\<close> under its condition.
\<close>

definition computeUpdateInfo :: "Tools \<Rightarrow> NsisTarget \<Rightarrow> string \<Rightarrow> UpdatePayload
    \<Rightarrow> error + UpdateInfo option" where
  "computeUpdateInfo tools t installerFile packageFiles =
     (let opts = options t;
          oneClickMode = (oneClick opts \<noteq> Some False);
          isPerMachine = (perMachine opts = Some True)
      in case (if isWebInstaller t
               then Inr (createNsisWebDifferentialUpdateInfo tools installerFile packageFiles)
               else if isBuildDifferentialAware t then createBlockmap tools installerFile
               else Inr None) of
           Inl e \<Rightarrow> Inl e
         | Inr None \<Rightarrow> Inr None
         | Inr (Some pl) \<Rightarrow>
             (let updateInfo = \<lparr>payload = pl, isAdminRightsRequired = False\<rparr>
              in if isPerMachine \<and> (oneClickMode \<or> truthy (packElevateHelper opts))
                 then Inr (Some (updateInfo\<lparr>isAdminRightsRequired := True\<rparr>))
                 else Inr (Some updateInfo)))"

text \<open>
  The second half of the task that \<^verbatim>\<open>buildInstaller\<close> adds to the build queue, from the
  copy of \<^verbatim>\<open>UNINSTALLER_OUT_FILE\<close> into the defines of the installer to the completion
  event. An absent define is copied as \<^verbatim>\<open>undefined\<close>, which \<^verbatim>\<open>executeMakensis\<close> and the
  test \<^verbatim>\<open>== null\<close> treat as \<^verbatim>\<open>null\<close>: a flag. In
  \<^verbatim>\<open>Promise.all([packager.sign(installerPath), ... unlink(...)])\<close> both operations are
  started before either is awaited, so the file is unlinked also when signing fails.
\<close>

definition finishInstaller :: "Tools \<Rightarrow> NsisTarget \<Rightarrow> string \<Rightarrow> Defines \<Rightarrow> Defines
    \<Rightarrow> UpdatePayload \<Rightarrow> World \<Rightarrow> (error option \<times> World) option" where
  "finishInstaller tools t installerFile defines definesUninstaller packageFiles w =
     (let defines = defines(''UNINSTALLER_OUT_FILE'' \<mapsto>
                      (case definesUninstaller ''UNINSTALLER_OUT_FILE'' of
                         None \<Rightarrow> Flag | Some v \<Rightarrow> v))
      in case executeMakensis tools defines installerFile w of
           None \<Rightarrow> None
         | Some (Some e, w) \<Rightarrow> Some (Some e, w)
         | Some (None, w) \<Rightarrow>
            (let w = emit [Sign installerFile] w;
                 signed = sign tools installerFile;
                 unlinked = (case defines ''UNINSTALLER_OUT_FILE'' of
                               Some (Str f) \<Rightarrow> unlink f w
                             | _ \<Rightarrow> (None, w))
             in if \<not> signed then Some (Some (ExternalFailure ''sign''), snd unlinked)
                else case unlinked of
                       (Some e, w) \<Rightarrow> Some (Some e, w)
                     | (None, w) \<Rightarrow>
                        (case computeUpdateInfo tools t installerFile packageFiles of
                           Inl e \<Rightarrow> Some (Some e, w)
                         | Inr updateInfo \<Rightarrow>
                             Some (None, emit [InstallerCompleted installerFile updateInfo] w))))"

text \<open>
  The task as a whole: the defines of the uninstaller carry the short version when
  there is one; a portable target reads its template, every other target goes through
  \<^verbatim>\<open>computeScriptAndSignUninstaller\<close>. The texts of the scripts
  (\<^verbatim>\<open>computeCommonInstallerScriptHeader\<close>, \<^verbatim>\<open>computeFinalScript\<close>) are not part of the
  model.
\<close>

definition queuedTask :: "Tools \<Rightarrow> Packager \<Rightarrow> NsisTarget \<Rightarrow> ArchMap \<Rightarrow> Defines
    \<Rightarrow> UpdatePayload \<Rightarrow> World \<Rightarrow> (error option \<times> World) option" where
  "queuedTask tools p t archMap defines packageFiles w =
     (let installerFile = installerPath p t archMap;
          definesUninstaller = (case shortVersion (appInfo p) of
                                  None \<Rightarrow> defines
                                | Some v \<Rightarrow> defines(''VERSION'' \<mapsto> Str v))
      in case (if isPortable t then Some (Inr definesUninstaller, w)
               else computeScriptAndSignUninstaller tools p t definesUninstaller installerFile w) of
           None \<Rightarrow> None
         | Some (Inl e, w) \<Rightarrow> Some (Some e, w)
         | Some (Inr definesUninstaller, w) \<Rightarrow>
             finishInstaller tools t installerFile defines definesUninstaller packageFiles w)"

text \<open>
  \<^verbatim>\<open>buildInstaller(archs)\<close>: the defines, the hook \<^verbatim>\<open>effectiveOptionComputed\<close> (which
  ends the build when it returns \<^verbatim>\<open>true\<close>) and the queued task, run here as soon as it
  is queued. The result is \<open>None\<close> when the build waits forever for its output file,
  and otherwise the error (if any) and the files and events after the build.
\<close>

definition buildInstaller :: "Tools \<Rightarrow> Packager \<Rightarrow> NsisTarget \<Rightarrow> ArchMap \<Rightarrow> World
    \<Rightarrow> (error option \<times> World) option" where
  "buildInstaller tools p t archMap w =
     (case buildInstallerDefines p t archMap of
        (Inl e, evs) \<Rightarrow> Some (Some e, emit evs w)
      | (Inr (defines, packageFiles), evs) \<Rightarrow>
          (if (case effectiveOptionComputed p of None \<Rightarrow> False | Some hook \<Rightarrow> hook defines)
           then Some (None, emit evs w)
           else queuedTask tools p t archMap defines packageFiles (emit evs w)))"

subsection \<open>A sample build\<close>

text \<open>
  Concrete collaborators for evaluating the model: an application \<^verbatim>\<open>App\<close> 1.0.0 with
  no custom resources, packages whose listing reports 5242880 bytes, a compiler, an
  emulator and a signer that succeed, and an output file that is not locked. All paths
  of the sample lie in the directory \<^verbatim>\<open>dist\<close>, so the base name of a path is what
  follows its first five characters.
\<close>

definition sampleAppInfo :: AppInfo where
  "sampleAppInfo = \<lparr>appId = ''com.example.app'', appName = ''app'', productName = ''App'',
     productFilename = ''App'', description = ''Sample'', version = ''1.0.0'',
     shortVersion = None, companyName = None, updaterCacheDirName = ''app-updater''\<rparr>"

definition samplePackager :: Packager where
  "samplePackager = \<lparr>appInfo = sampleAppInfo, projectDir = ''/project'',
     buildResourcesDir = ''/project/build'', homepage = None, compression = None,
     getResource = (\<lambda>custom name. None), getIconPath = None, expandMacro = (\<lambda>s. s),
     effectiveOptions = \<lparr>menuCategory = None, shortcutName = ''App'',
        isCreateDesktopShortcut = FRESH_INSTALL, isCreateStartMenuShortcut = True\<rparr>,
     uuidV5 = (\<lambda>i. ''7a2f2a3c-0f4e-5d1b-9c3a-2b1d4e5f6a7b''),
     getWindowsInstallationDirName = (\<lambda>b. ''App''),
     getWindowsInstallationAppPackageName = (\<lambda>n. n),
     expandArtifactNamePattern = (\<lambda>a. ''App Setup 1.0.0.exe''),
     packArch = (\<lambda>arch. Inr \<lparr>fileInfo = \<lparr>path = ''dist/app-1.0.0-'' @ archName arch @ ''.nsis.7z'',
        fileSize = 1048576,
        sha512 = ''VKMiizYdmNdJOWpRGz4trl4lD++BvYP2irAXpMilheUP0pc93iKlWAoP843Vlraj8YG19CVn0j+dCo/hURz9+Q==''\<rparr>,
        unpackedSize = 5242881\<rparr>),
     exec7zaList = (\<lambda>file. Inr ''2024-01-01 00:00:00  5242880  1048576  12 files''),
     ksuid = ''2ABCdefGHIjklMNO'', effectiveOptionComputed = None,
     CURRENT_APP_PACKAGE_FILE_NAME = ''package.7z'',
     CURRENT_APP_INSTALLER_FILE_NAME = ''installer.exe'',
     path_join = (\<lambda>a b. a @ ''/'' @ b), path_basename = (\<lambda>f. drop 5 f),
     path_resolve = (\<lambda>a b. a @ ''/'' @ b)\<rparr>"

definition sampleTools :: Tools where
  "sampleTools = \<lparr>makensis = (\<lambda>defines. True), openOutFile = (\<lambda>defines n. Opened),
     sign = (\<lambda>f. True), isWin = False, isMacOsCatalina = False, uninstallerReaderExec = True,
     vmExec = True, uninstallerExists = (\<lambda>n. True), execWine = True,
     createNsisWebDifferentialUpdateInfo = (\<lambda>f packageFiles. Some packageFiles),
     createBlockmap = (\<lambda>f. Inr (Some [(f, \<lparr>path = f, fileSize = 2097152, sha512 = []\<rparr>)])),
     path_basename_ext = (\<lambda>f ext. take (length f - 5 - length ext) (drop 5 f)),
     path_win32_join = (\<lambda>a b. a @ [backslash] @ b)\<rparr>"

definition sampleTarget :: "NsisOptions \<Rightarrow> NsisTarget" where
  "sampleTarget opts = \<lparr>name = ''nsis'', outDir = ''dist'', options = opts,
     isWebInstaller = False, archs = [(x64, ''dist/win-unpacked'')]\<rparr>"

definition emptyWorld :: World where
  "emptyWorld = \<lparr>files = {}, events = []\<rparr>"

text \<open>
  Variations of the sample: a packager whose listing matches for the x64 package only,
  and a compiler that compiles the uninstaller stub and fails on the installer.
\<close>

definition x64ListedPackager :: Packager where
  "x64ListedPackager = samplePackager\<lparr>exec7zaList :=
     (\<lambda>file. Inr (if file = ''dist/app-1.0.0-x64.nsis.7z''
                   then ''2024-01-01 00:00:00  5242880  1048576  12 files''
                   else ''Warnings: 1''))\<rparr>"

definition stubOnlyTools :: Tools where
  "stubOnlyTools = sampleTools\<lparr>makensis := (\<lambda>defines. defines ''BUILD_UNINSTALLER'' \<noteq> None)\<rparr>"

subsection \<open>The installer at run time: the macro \<^verbatim>\<open>installApplicationFiles\<close>\<close>

text \<open>
  The value that \<^verbatim>\<open>${NAME}\<close> stands for in the script: the value of the define, the empty
  string for a define without value, and the text itself when there is no such define
  (the compiler leaves it in place).
\<close>

definition expandDefine :: "Defines \<Rightarrow> string \<Rightarrow> string" where
  "expandDefine defines k =
     (case defines k of
        None \<Rightarrow> ''${'' @ k @ ''}''
      | Some Flag \<Rightarrow> []
      | Some (Str v) \<Rightarrow> v
      | Some (Num n) \<Rightarrow> natToString n)"

text \<open>
  The comparison \<^verbatim>\<open>==\<close> of LogicLib is the instruction \<^verbatim>\<open>StrCmp\<close>, which ignores the
  case of letters.
\<close>

definition toLowerCase :: "string \<Rightarrow> string" where
  "toLowerCase s =
     map (\<lambda>c. let n = (of_char c :: nat) in if 65 \<le> n \<and> n \<le> 90 then char_of (n + 32) else c) s"

definition StrCmp :: "string \<Rightarrow> string \<Rightarrow> bool" where
  "StrCmp a b = (toLowerCase a = toLowerCase b)"

text \<open>What the macro does to the machine, in order.\<close>

datatype InstallEvent =
    FileRecursive string
  | HashFile string
  | ChecksumMismatchBox string string string
  | DownloadApplicationFiles
  | ExtractUsing7za string
  | SetShellVarContext string
  | MoveFile string string
  | CopyFile string string
  | ExtractEmbeddedAppPackage
  | FileUninstaller string string

text \<open>
  The variables of the script that the macro reads or writes: \<^verbatim>\<open>$packageFile\<close>,
  \<^verbatim>\<open>$isPackageFileExplicitlySpecified\<close>, the registers \<^verbatim>\<open>$1\<close>, \<^verbatim>\<open>$3\<close> and \<^verbatim>\<open>$4\<close>,
  \<^verbatim>\<open>$installMode\<close>; and the trace of what has been done.
\<close>

record Installer =
  packageFile :: string
  isPackageFileExplicitlySpecified :: string
  reg1 :: string
  reg3 :: string
  reg4 :: string
  installMode :: string
  trace :: "InstallEvent list"

text \<open>
  The machine the installer runs on: the value of the command-line parameter
  \<^verbatim>\<open>package-file\<close> as \<^verbatim>\<open>${StdUtils.GetParameter}\<close> returns it (the empty string when
  the parameter is absent), the architecture tests, \<^verbatim>\<open>$EXEDIR\<close>, the file system, the
  hash function \<^verbatim>\<open>${StdUtils.HashFile}\<close>, and the macro \<^verbatim>\<open>downloadApplicationFiles\<close>
  of \<^verbatim>\<open>webPackage.nsh\<close>, which is not among the sources: it is the function from the
  variables before it to the variables with which it passes control on.
\<close>

record Machine =
  packageFileParameter :: string
  IsNativeARM64 :: bool
  IsNativeAMD64 :: bool
  RunningX64 :: bool
  EXEDIR :: string
  FileExists :: "string \<Rightarrow> bool"
  StdUtils_HashFile :: "string \<Rightarrow> string"
  downloadApplicationFiles :: "Installer \<Rightarrow> Installer"

definition log :: "InstallEvent list \<Rightarrow> Installer \<Rightarrow> Installer" where
  "log evs s = s\<lparr>trace := trace s @ evs\<rparr>"

text \<open>
  The payload that the script picks when no package file was given: the nested
  \<^verbatim>\<open>!ifdef\<close> blocks over \<^verbatim>\<open>APP_64_NAME\<close>, \<^verbatim>\<open>APP_32_NAME\<close> and \<^verbatim>\<open>APP_ARM64_NAME\<close>, with
  the run-time tests of the architecture inside. The result is the name of the slot
  (\<^verbatim>\<open>APP_64\<close>, \<^verbatim>\<open>APP_ARM64\<close> or \<^verbatim>\<open>APP_32\<close>).
\<close>

definition defaultSlot :: "Defines \<Rightarrow> Machine \<Rightarrow> string" where
  "defaultSlot defines m =
     (if defines ''APP_64_NAME'' \<noteq> None then
        (if defines ''APP_32_NAME'' \<noteq> None then
           (if defines ''APP_ARM64_NAME'' \<noteq> None then
              (if IsNativeARM64 m then ''APP_ARM64''
               else if IsNativeAMD64 m then ''APP_64''
               else ''APP_32'')
            else (if RunningX64 m then ''APP_64'' else ''APP_32''))
         else ''APP_64'')
      else ''APP_32'')"

text \<open>
  The first part of the web branch: from \<^verbatim>\<open>${StdUtils.GetParameter}\<close> to the
  \<^verbatim>\<open>${endIf}\<close> that closes the test of \<^verbatim>\<open>$packageFile == ""\<close>.
\<close>

definition selectPackageFile :: "Defines \<Rightarrow> Machine \<Rightarrow> Installer \<Rightarrow> Installer" where
  "selectPackageFile defines m s =
     (let s = s\<lparr>packageFile := packageFileParameter m\<rparr>
      in if StrCmp (packageFile s) []
         then (let slot = defaultSlot defines m;
                   s = s\<lparr>packageFile := expandDefine defines (slot @ ''_NAME'')\<rparr>;
                   s = s\<lparr>reg1 := expandDefine defines (slot @ ''_HASH'')\<rparr>;
                   s = s\<lparr>reg4 := packageFile s\<rparr>;
                   s = s\<lparr>packageFile := EXEDIR m @ ''/'' @ packageFile s\<rparr>
               in s\<lparr>isPackageFileExplicitlySpecified := ''false''\<rparr>)
         else s\<lparr>isPackageFileExplicitlySpecified := ''true''\<rparr>)"

text \<open>The label \<^verbatim>\<open>fun_extract\<close> and what follows it in the web branch.\<close>

definition fun_extract :: "Defines \<Rightarrow> Installer \<Rightarrow> Installer" where
  "fun_extract defines s =
     (let s = log [ExtractUsing7za (packageFile s)] s;
          s = (if StrCmp (installMode s) ''all'' then log [SetShellVarContext ''current''] s else s);
          s = log [MoveFile (packageFile s)
                     (''$LOCALAPPDATA'' @ [backslash] @ expandDefine defines ''APP_PACKAGE_STORE_FILE'')] s
      in if StrCmp (installMode s) ''all'' then log [SetShellVarContext ''all''] s else s)"

text \<open>
  The web branch (\<^verbatim>\<open>!ifdef APP_PACKAGE_URL\<close>): the choice of the package file, the test
  of the local file, the download when the local file is not used, the extraction.
\<close>

definition installFromPackage :: "Defines \<Rightarrow> Machine \<Rightarrow> Installer \<Rightarrow> Installer" where
  "installFromPackage defines m s =
     (let s = selectPackageFile defines m s
      in if FileExists m (packageFile s)
         then (if StrCmp (isPackageFileExplicitlySpecified s) ''true''
               then fun_extract defines s
               else (let s = log [HashFile (packageFile s)]
                               (s\<lparr>reg3 := StdUtils_HashFile m (packageFile s)\<rparr>)
                     in if StrCmp (reg3 s) (reg1 s)
                        then fun_extract defines s
                        else fun_extract defines
                               (downloadApplicationFiles m
                                  (log [ChecksumMismatchBox (reg4 s) (reg1 s) (reg3 s),
                                        DownloadApplicationFiles] s))))
         else fun_extract defines
                (downloadApplicationFiles m (log [DownloadApplicationFiles] s)))"

text \<open>The macro \<^verbatim>\<open>installApplicationFiles\<close>.\<close>

definition installApplicationFiles :: "Defines \<Rightarrow> Machine \<Rightarrow> Installer \<Rightarrow> Installer" where
  "installApplicationFiles defines m s =
     (let s =
        (if defines ''APP_BUILD_DIR'' \<noteq> None
         then log [FileRecursive (expandDefine defines ''APP_BUILD_DIR'' @ [backslash] @ ''*.*'')] s
         else if defines ''APP_PACKAGE_URL'' \<noteq> None
         then installFromPackage defines m s
         else (let s = log [ExtractEmbeddedAppPackage] s;
                   s = (if StrCmp (installMode s) ''all''
                        then log [SetShellVarContext ''current''] s else s);
                   s = log [CopyFile ''$EXEPATH''
                              (''$LOCALAPPDATA'' @ [backslash]
                                 @ expandDefine defines ''APP_INSTALLER_STORE_FILE'')] s
               in if StrCmp (installMode s) ''all'' then log [SetShellVarContext ''all''] s else s))
      in log [FileUninstaller (''/oname='' @ expandDefine defines ''UNINSTALL_FILENAME'')
                (expandDefine defines ''UNINSTALLER_OUT_FILE'')] s)"

text \<open>
  A sample web installer at run time: the defines of a build for x64 and ia32, a fresh
  installer, a machine started by the updater with a package file (whose hash is not the
  embedded one), the same machine started without the parameter, and one where the local
  file has the embedded hash.
\<close>

definition webDefines :: Defines where
  "webDefines = [''APP_PACKAGE_URL'' \<mapsto> Str ''https://example.com/download'',
     ''APP_64_NAME'' \<mapsto> Str ''app-1.0.0-x64.nsis.7z'', ''APP_64_HASH'' \<mapsto> Str ''54A3228B'',
     ''APP_32_NAME'' \<mapsto> Str ''app-1.0.0-ia32.nsis.7z'', ''APP_32_HASH'' \<mapsto> Str ''0FD2973D'',
     ''APP_PACKAGE_STORE_FILE'' \<mapsto> Str ''app-updater/package.7z'',
     ''UNINSTALL_FILENAME'' \<mapsto> Str ''Uninstall App.exe'',
     ''UNINSTALLER_OUT_FILE'' \<mapsto> Str ''dist/App Web Setup 1.0.0.__uninstaller.exe'']"

definition freshInstaller :: Installer where
  "freshInstaller = \<lparr>packageFile = [], isPackageFileExplicitlySpecified = [], reg1 = [],
     reg3 = [], reg4 = [], installMode = ''all'', trace = []\<rparr>"

definition updaterMachine :: Machine where
  "updaterMachine = \<lparr>packageFileParameter = ''C:/cache/pending/package.7z'',
     IsNativeARM64 = False, IsNativeAMD64 = True, RunningX64 = True, EXEDIR = ''C:/Downloads'',
     FileExists = (\<lambda>f. True), StdUtils_HashFile = (\<lambda>f. ''00FF00FF''),
     downloadApplicationFiles = (\<lambda>s. s\<lparr>packageFile := ''$PLUGINSDIR/package.7z''\<rparr>)\<rparr>"

definition plainMachine :: Machine where
  "plainMachine = updaterMachine\<lparr>packageFileParameter := []\<rparr>"

definition matchingMachine :: Machine where
  "matchingMachine = plainMachine\<lparr>StdUtils_HashFile := (\<lambda>f. ''54a3228b'')\<rparr>"

section \<open>Properties\<close>

subsection \<open>Scheduling\<close>

lemma runBuilds_all_ok:
  "(\<And>a. a \<in> set as \<Longrightarrow> buildOne a = None) \<Longrightarrow> runBuilds buildOne as = (as, None)"
  by (induction as) auto

text \<open>
  With the universal build enabled, \<^verbatim>\<open>build\<close> only registers the architecture: two
  calls with different architectures on a fresh target leave two entries and start no
  build.
\<close>

lemma build_universal_registers:
  assumes "buildUniversalInstaller (options t) \<noteq> Some False"
  shows "build buildOne appOutDir arch t =
           (t\<lparr>archs := AList.update arch appOutDir (archs t)\<rparr>, [], None)"
  using assms by (simp add: build_def shouldBuildUniversalInstaller_def Let_def)

lemma build_twice_registers_two:
  assumes "buildUniversalInstaller (options t) \<noteq> Some False" and "archs t = []"
    and "a1 \<noteq> a2"
  shows "archs (fst (build buildOne d2 a2 (fst (build buildOne d1 a1 t)))) = [(a1, d1), (a2, d2)]"
  using assms by (simp add: build_def shouldBuildUniversalInstaller_def Let_def)

text \<open>
  Claim C7. When exactly two architectures are registered for a target, the artifact
  filename pattern contains the token \<^verbatim>\<open>${arch}\<close> and the universal build is enabled
  (\<^verbatim>\<open>buildUniversalInstaller\<close> is not \<^verbatim>\<open>false\<close>), \<^verbatim>\<open>finishBuild\<close> calls
  \<^verbatim>\<open>buildInstaller\<close> exactly three times (none of the calls throwing): first with the
  map of both architectures, then once with each architecture alone.
\<close>

theorem finishBuild_two_archs_three_builds:
  assumes "archs t = [(a1, d1), (a2, d2)]"
    and "buildUniversalInstaller (options t) \<noteq> Some False"
    and "str_includes pattern ''${arch}''"
    and "\<forall>m \<in> set (builds pattern t). bi m = None"
  shows "finishBuild bi pattern t = ([[(a1, d1), (a2, d2)], [(a1, d1)], [(a2, d2)]], None) \<and>
         length (fst (finishBuild bi pattern t)) = 3"
proof -
  have u: "shouldBuildUniversalInstaller t"
    using assms(2) by (simp add: shouldBuildUniversalInstaller_def)
  have b: "builds pattern t = [[(a1, d1), (a2, d2)], [(a1, d1)], [(a2, d2)]]"
    using assms(1,3) by (simp add: builds_def)
  have "runBuilds bi (builds pattern t) = (builds pattern t, None)"
    using assms(4) by (intro runBuilds_all_ok) simp
  then show ?thesis
    using u b by (simp add: finishBuild_def)
qed

theorem finishBuild_two_archs_three_builds_witness:
  "finishBuild (\<lambda>m. None) ''${productName}-${version}-${arch}.${ext}''
     \<lparr>name = ''nsis'', outDir = ''dist'', options = noOptions, isWebInstaller = False,
      archs = [(x64, ''dist/win-unpacked''), (arm64, ''dist/win-arm64-unpacked'')]\<rparr>
   = ([[(x64, ''dist/win-unpacked''), (arm64, ''dist/win-arm64-unpacked'')],
       [(x64, ''dist/win-unpacked'')], [(arm64, ''dist/win-arm64-unpacked'')]], None)"
  using finishBuild_two_archs_three_builds
    [of "\<lparr>name = ''nsis'', outDir = ''dist'', options = noOptions, isWebInstaller = False,
          archs = [(x64, ''dist/win-unpacked''), (arm64, ''dist/win-arm64-unpacked'')]\<rparr>"
        x64 "''dist/win-unpacked''" arm64 "''dist/win-arm64-unpacked''"
        "''${productName}-${version}-${arch}.${ext}''" "\<lambda>m. None"]
  by (simp add: noOptions_def)

subsection \<open>The probe of the output file\<close>

lemma isBusy_returns_unlocked:
  assumes "isBusy fs_open b s = Some r"
  shows "\<exists>k \<ge> opens s. fs_open k \<noteq> EBUSY"
proof (rule isBusy.raw_induct
    [where P = "\<lambda>f b s r. \<exists>k \<ge> opens s. f k \<noteq> EBUSY", OF _ assms])
  fix isBusy' :: "(nat \<Rightarrow> OpenResult) \<Rightarrow> bool \<Rightarrow> ProbeState \<Rightarrow> ProbeState option"
  fix f b s r
  assume IH: "\<And>f b s r. isBusy' f b s = Some r \<Longrightarrow> \<exists>k \<ge> opens s. f k \<noteq> EBUSY"
  assume body: "(case f (opens s) of
        EBUSY \<Rightarrow>
          isBusy' f True
            (s\<lparr>opens := opens s + 1,
               infos := (if \<not> b then infos s + 1 else infos s),
               delays := delays s + 1,
               waited_ms := waited_ms s + 2000\<rparr>)
      | OtherError \<Rightarrow> Some (s\<lparr>opens := opens s + 1\<rparr>)
      | Opened \<Rightarrow> Some (s\<lparr>opens := opens s + 1, closes := closes s + 1\<rparr>)) = Some r"
  show "\<exists>k \<ge> opens s. f k \<noteq> EBUSY"
  proof (cases "f (opens s)")
    case EBUSY
    with body have "isBusy' f True
            (s\<lparr>opens := opens s + 1,
               infos := (if \<not> b then infos s + 1 else infos s),
               delays := delays s + 1,
               waited_ms := waited_ms s + 2000\<rparr>) = Some r" by simp
    then have "\<exists>k \<ge> opens (s\<lparr>opens := opens s + 1,
               infos := (if \<not> b then infos s + 1 else infos s),
               delays := delays s + 1,
               waited_ms := waited_ms s + 2000\<rparr>). f k \<noteq> EBUSY"
      by (rule IH)
    then obtain k where "k \<ge> opens s + 1" "f k \<noteq> EBUSY" by auto
    then have "k \<ge> opens s \<and> f k \<noteq> EBUSY" by simp
    then show ?thesis by blast
  next
    case OtherError
    then have "opens s \<ge> opens s \<and> f (opens s) \<noteq> EBUSY" by simp
    then show ?thesis by blast
  next
    case Opened
    then have "opens s \<ge> opens s \<and> f (opens s) \<noteq> EBUSY" by simp
    then show ?thesis by blast
  qed
qed

lemma isBusy_step:
  "fs_open (opens s) = EBUSY \<Longrightarrow>
   isBusy fs_open b s = isBusy fs_open True
            (s\<lparr>opens := opens s + 1,
               infos := (if \<not> b then infos s + 1 else infos s),
               delays := delays s + 1,
               waited_ms := waited_ms s + 2000\<rparr>)"
  by (subst isBusy.simps) simp

lemma isBusy_after_locks:
  "(\<forall>i < k. fs_open (opens s + i) = EBUSY) \<Longrightarrow> fs_open (opens s + k) \<noteq> EBUSY \<Longrightarrow>
   isBusy fs_open b s =
     Some (s\<lparr>opens := opens s + k + 1,
             closes := (if fs_open (opens s + k) = Opened then closes s + 1 else closes s),
             infos := (if \<not> b \<and> 0 < k then infos s + 1 else infos s),
             delays := delays s + k,
             waited_ms := waited_ms s + 2000 * k\<rparr>)"
proof (induction k arbitrary: s b)
  case 0
  then show ?case
    by (subst isBusy.simps) (cases "fs_open (opens s)"; simp)
next
  case (Suc k)
  let ?s = "s\<lparr>opens := opens s + 1,
               infos := (if \<not> b then infos s + 1 else infos s),
               delays := delays s + 1,
               waited_ms := waited_ms s + 2000\<rparr>"
  have busy: "fs_open (opens s) = EBUSY"
    using Suc.prems(1) by (metis add.right_neutral zero_less_Suc)
  have a: "\<forall>i<k. fs_open (opens ?s + i) = EBUSY" using Suc.prems(1) by auto
  have b: "fs_open (opens ?s + k) \<noteq> EBUSY" using Suc.prems(2) by simp
  have "isBusy fs_open b s = isBusy fs_open True ?s"
    using busy by (rule isBusy_step)
  also have "\<dots> = Some (?s\<lparr>opens := opens ?s + k + 1,
             closes := (if fs_open (opens ?s + k) = Opened then closes ?s + 1 else closes ?s),
             infos := (if \<not> True \<and> 0 < k then infos ?s + 1 else infos ?s),
             delays := delays ?s + k,
             waited_ms := waited_ms ?s + 2000 * k\<rparr>)"
    using a b by (rule Suc.IH)
  also have "\<dots> = Some (s\<lparr>opens := opens s + Suc k + 1,
             closes := (if fs_open (opens s + Suc k) = Opened then closes s + 1 else closes s),
             infos := (if \<not> b \<and> 0 < Suc k then infos s + 1 else infos s),
             delays := delays s + Suc k,
             waited_ms := waited_ms s + 2000 * Suc k\<rparr>)"
    by simp
  finally show ?case .
qed

lemma ensureNotBusy_after_locks:
  assumes "\<forall>i < k. fs_open i = EBUSY" and "fs_open k \<noteq> EBUSY"
  shows "ensureNotBusy fs_open =
     Some \<lparr>opens = k + 1, closes = (if fs_open k = Opened then 1 else 0),
           infos = (if 0 < k then 1 else 0), delays = k, waited_ms = 2000 * k\<rparr>"
  using assms
    isBusy_after_locks [of k fs_open
      "\<lparr>opens = 0, closes = 0, infos = 0, delays = 0, waited_ms = 0\<rparr>" False]
  by (simp add: ensureNotBusy_def)

lemma ensureNotBusy_locked_forever:
  assumes "\<forall>i. fs_open i = EBUSY"
  shows "ensureNotBusy fs_open = None"
proof (cases "ensureNotBusy fs_open")
  case None
  then show ?thesis .
next
  case (Some r)
  then have "\<exists>k \<ge> opens \<lparr>opens = 0, closes = 0, infos = 0, delays = 0, waited_ms = 0\<rparr>.
      fs_open k \<noteq> EBUSY"
    unfolding ensureNotBusy_def by (rule isBusy_returns_unlocked)
  with assms show ?thesis by simp
qed

text \<open>
  Claim C3, as the code has it. The probe of the output file is repeated after a fixed
  delay of 2000 ms with no bound on the number of attempts: for every \<open>k\<close>, a file that
  is locked for \<open>k\<close> probe cycles and then opens makes \<^verbatim>\<open>ensureNotBusy\<close> resolve after
  exactly \<open>k\<close> delays (\<open>2000 * k\<close> ms, \<open>k + 1\<close> probes, one message when \<open>k > 0\<close>), and
  a file that stays locked makes it wait forever: the promise never settles, neither
  resolved nor rejected.
\<close>

theorem ensureNotBusy_retries_without_bound:
  "((\<forall>i < k. fs_open i = EBUSY) \<and> fs_open k \<noteq> EBUSY \<longrightarrow>
      ensureNotBusy fs_open =
        Some \<lparr>opens = k + 1, closes = (if fs_open k = Opened then 1 else 0),
              infos = (if 0 < k then 1 else 0), delays = k, waited_ms = 2000 * k\<rparr>) \<and>
   ((\<forall>i. locked i = EBUSY) \<longrightarrow> ensureNotBusy locked = None)"
  using ensureNotBusy_after_locks [of k fs_open] ensureNotBusy_locked_forever [of locked]
  by blast

theorem ensureNotBusy_retries_without_bound_witness:
  "ensureNotBusy (lockedFor 2) =
     Some \<lparr>opens = 3, closes = 1, infos = 1, delays = 2, waited_ms = 4000\<rparr> \<and>
   ensureNotBusy (lockedFor 1000) =
     Some \<lparr>opens = 1001, closes = 1, infos = 1, delays = 1000, waited_ms = 2000000\<rparr> \<and>
   ensureNotBusy alwaysLocked = None"
  using ensureNotBusy_retries_without_bound [of 2 "lockedFor 2" alwaysLocked]
    ensureNotBusy_retries_without_bound [of 1000 "lockedFor 1000" alwaysLocked]
  by (simp add: lockedFor_def alwaysLocked_def)

text \<open>
  Claim C3, as stated, fails: it promises that on a file that stays locked the probe loop
  ends after a bounded number of attempts and the build fails. On such a file
  \<^verbatim>\<open>ensureNotBusy\<close> never returns, so there is neither a last attempt nor a failure.
\<close>

theorem ensureNotBusy_bounded_counterexample:
  "ensureNotBusy alwaysLocked = None"
  by (rule ensureNotBusy_locked_forever) (simp add: alwaysLocked_def)

subsection \<open>The package hash define\<close>

lemma unbase64_b64char: "i < 64 \<Longrightarrow> unbase64 (b64char i) = Some i"
  by (auto simp: unbase64_def b64char_def Let_def)


lemma unat_u8_bound: "unat (x :: u8) < 256"
  using unsigned_less [of x, where ?'a = nat] by simp

lemma sextet_arith:
  fixes a b c :: nat
  assumes "a < 256" "b < 256" "c < 256"
  shows "a div 4 < 64" "(a mod 4) * 16 + b div 16 < 64" "(b mod 16) * 4 + c div 64 < 64"
    "c mod 64 < 64" "(a mod 4) * 16 < 64" "(b mod 16) * 4 < 64"
    "(a div 4) * 4 + ((a mod 4) * 16 + b div 16) div 16 = a"
    "(((a mod 4) * 16 + b div 16) mod 16) * 16 + ((b mod 16) * 4 + c div 64) div 4 = b"
    "(((b mod 16) * 4 + c div 64) mod 4) * 64 + c mod 64 = c"
    "(a div 4) * 4 + ((a mod 4) * 16) div 16 = a"
    "(((a mod 4) * 16 + b div 16) mod 16) * 16 + ((b mod 16) * 4) div 4 = b"
proof -
  show "a div 4 < 64" "(a mod 4) * 16 + b div 16 < 64" "(b mod 16) * 4 + c div 64 < 64"
    "c mod 64 < 64" "(a mod 4) * 16 < 64" "(b mod 16) * 4 < 64"
    using assms by arith+
  have 1: "((a mod 4) * 16 + b div 16) div 16 = a mod 4" using assms by simp
  have 2: "((a mod 4) * 16 + b div 16) mod 16 = b div 16" using assms by simp
  have 3: "((b mod 16) * 4 + c div 64) div 4 = b mod 16" using assms by simp
  have 4: "((b mod 16) * 4 + c div 64) mod 4 = c div 64" using assms by simp
  show "(a div 4) * 4 + ((a mod 4) * 16 + b div 16) div 16 = a" unfolding 1 by simp
  show "(((a mod 4) * 16 + b div 16) mod 16) * 16 + ((b mod 16) * 4 + c div 64) div 4 = b"
    unfolding 2 3 by simp
  show "(((b mod 16) * 4 + c div 64) mod 4) * 64 + c mod 64 = c" unfolding 4 by simp
  show "(a div 4) * 4 + ((a mod 4) * 16) div 16 = a" by simp
  show "(((a mod 4) * 16 + b div 16) mod 16) * 16 + ((b mod 16) * 4) div 4 = b"
    unfolding 2 by simp
qed

lemma unbase64_pad: "unbase64 (CHR ''='') = None"
  by (simp add: unbase64_def)

lemma base64_decode_encode: "base64_decode (base64_encode bs) = bs"
  unfolding base64_decode_def
proof (induction bs rule: base64_encode.induct)
  case (1 x y z rest)
  then show ?case
    using sextet_arith [OF unat_u8_bound [of x] unat_u8_bound [of y] unat_u8_bound [of z]]
    by (simp add: unbase64_b64char)
next
  case (2 x y)
  then show ?case
    using sextet_arith [OF unat_u8_bound [of x] unat_u8_bound [of y] unat_u8_bound [of y]]
    by (simp add: unbase64_b64char unbase64_pad)
next
  case (3 x)
  then show ?case
    using sextet_arith [OF unat_u8_bound [of x] unat_u8_bound [of x] unat_u8_bound [of x]]
    by (simp add: unbase64_b64char unbase64_pad)
next
  case 4
  then show ?case by simp
qed

lemma hexval_upper_hexdigit:
  "n < 16 \<Longrightarrow> hexval (let m = (of_char (hexdigit n) :: nat) in if 97 \<le> m \<and> m \<le> 122 then char_of (m - 32) else hexdigit n) = Some n"
  by (auto simp: hexval_def hexdigit_def Let_def)

lemma hex_decode_upper_encode: "hex_decode (toUpperCase (hex_encode bs)) = Some bs"
proof (induction bs)
  case Nil
  then show ?case by (simp add: toUpperCase_def hex_encode_def)
next
  case (Cons b bs)
  have hi: "unat b div 16 < 16" and lo: "unat b mod 16 < 16"
    using unat_u8_bound [of b] by simp_all
  have eq: "unat b div 16 * 16 + unat b mod 16 = unat b" by simp
  show ?case
    using Cons.IH hexval_upper_hexdigit [OF hi] hexval_upper_hexdigit [OF lo] eq
    by (simp add: toUpperCase_def hex_encode_def Let_def)
qed

text \<open>
  Claim C8. For every digest, with the content hash supplied as the base64 form of the
  digest: decoding the upper-case hexadecimal value of the hash define back to bytes
  succeeds, and encoding those bytes as base64 gives the supplied string again.
\<close>

theorem hashDefine_roundtrip:
  "map_option base64_encode (hex_decode (hashDefine (base64_encode digest)))
     = Some (base64_encode digest)"
  by (simp add: hashDefine_def base64_decode_encode hex_decode_upper_encode)

subsection \<open>The defines table\<close>

lemma setFlagIf_apply: "setFlagIf c k d k' = (if c \<and> k' = k then Some Flag else d k')"
  by (simp add: setFlagIf_def)

lemma use_apply: "use v k d k' = (if v \<noteq> None \<and> k' = k then map_option Str v else d k')"
  by (cases v) (simp_all add: use_def)

lemma defineKey_prefix: "take 4 (defineKey arch @ s) = ''APP_''"
  by (simp add: defineKey_def)

lemma defineKey_neq: "take 4 k \<noteq> ''APP_'' \<Longrightarrow> k \<noteq> defineKey arch @ s"
  using defineKey_prefix [of arch s] by auto

lemma defineKey_neq0: "take 4 k \<noteq> ''APP_'' \<Longrightarrow> k \<noteq> defineKey arch"
  using defineKey_neq [of k arch "[]"] by simp

lemma packOne_cases:
  "packOne p t arch (d, n, pf, evs) =
     (case packArch p arch of
        Inl e \<Rightarrow> (Some e, (d, n, pf, evs @ [PackArch arch]))
      | Inr r \<Rightarrow>
          (let file = path (fileInfo r);
               d' = d(defineKey arch \<mapsto> Str file,
                      defineKey arch @ ''_NAME'' \<mapsto> Str (path_basename p file),
                      defineKey arch @ ''_HASH'' \<mapsto> Str (hashDefine (sha512 (fileInfo r))),
                      defineKey arch @ ''_UNPACKED_SIZE'' \<mapsto>
                            Str (natToString ((unpackedSize r + 1023) div 1024)));
               evs' = evs @ [PackArch arch] @ (if isWebInstaller t then [PackageCompleted file] else [])
                        @ [Exec7zaList file];
               pf' = (if isWebInstaller t then AList.update (archName arch) (fileInfo r) pf else pf)
           in case exec7zaList p file of
                Inl e \<Rightarrow> (Some e, (d', n, pf', evs'))
              | Inr output \<Rightarrow>
                 (case listedSize output of
                    None \<Rightarrow> (None, (d', n, pf', evs' @ [Warn ''cannot compute size of app package'']))
                  | Some m \<Rightarrow> (None, (d', n + m, pf', evs')))))"
  by (simp add: packOne_def Let_def split: sum.splits option.splits)


lemma packOne_frame:
  assumes "take 4 k \<noteq> ''APP_''" and "packOne p t arch st = (r, st')"
  shows "fst st' k = fst st k"
proof -
  obtain d n pf evs where st: "st = (d, n, pf, evs)" by (cases st) auto
  note ne = defineKey_neq [OF assms(1)] defineKey_neq0 [OF assms(1)]
  show ?thesis
    using assms(2) unfolding st packOne_cases
    by (auto simp: Let_def ne split: sum.splits option.splits)
qed

lemma packOne_events:
  assumes "packOne p t arch st = (r, st')"
  shows "filter isMakensis (snd (snd (snd st'))) = filter isMakensis (snd (snd (snd st)))"
proof -
  obtain d n pf evs where st: "st = (d, n, pf, evs)" by (cases st) auto
  show ?thesis
    using assms unfolding st packOne_cases
    by (auto simp: Let_def split: sum.splits option.splits)
qed

lemma packOne_size:
  assumes "packOne p t arch st = (None, st')"
  shows "fst (snd st') = fst (snd st) + (case listedSizeOf p arch of None \<Rightarrow> 0 | Some n \<Rightarrow> n)"
proof -
  obtain d n pf evs where st: "st = (d, n, pf, evs)" by (cases st) auto
  show ?thesis
    using assms unfolding st packOne_cases listedSizeOf_def
    by (auto simp: Let_def split: sum.splits option.splits)
qed

lemma packOne_error:
  "fst (packOne p t arch st) = None \<longleftrightarrow> packs p arch"
proof -
  obtain d n pf evs where st: "st = (d, n, pf, evs)" by (cases st) auto
  show ?thesis
    unfolding st packOne_cases packs_def
    by (auto simp: Let_def split: sum.splits option.splits)
qed

lemma packAll_frame:
  assumes "take 4 k \<noteq> ''APP_''" and "packAll p t as st = (r, st')"
  shows "fst st' k = fst st k"
  using assms(2)
proof (induction as arbitrary: st)
  case Nil
  then show ?case by simp
next
  case (Cons a as)
  obtain r1 st1 where one: "packOne p t a st = (r1, st1)" by (cases "packOne p t a st") auto
  have f1: "fst st1 k = fst st k" using packOne_frame [OF assms(1) one] .
  show ?case
  proof (cases r1)
    case None
    with Cons.prems one have "packAll p t as st1 = (r, st')" by simp
    from Cons.IH [OF this] f1 show ?thesis by simp
  next
    case (Some e)
    with Cons.prems one have "st' = st1" by simp
    with f1 show ?thesis by simp
  qed
qed

lemma packAll_events:
  assumes "packAll p t as st = (r, st')"
  shows "filter isMakensis (snd (snd (snd st'))) = filter isMakensis (snd (snd (snd st)))"
  using assms
proof (induction as arbitrary: st)
  case Nil
  then show ?case by simp
next
  case (Cons a as)
  obtain r1 st1 where one: "packOne p t a st = (r1, st1)" by (cases "packOne p t a st") auto
  note f1 = packOne_events [OF one]
  show ?case
  proof (cases r1)
    case None
    with Cons.prems one have "packAll p t as st1 = (r, st')" by simp
    from Cons.IH [OF this] f1 show ?thesis by simp
  next
    case (Some e)
    with Cons.prems one have "st' = st1" by simp
    with f1 show ?thesis by simp
  qed
qed

lemma packAll_size:
  assumes "packAll p t as st = (None, st')"
  shows "fst (snd st') = fst (snd st) + totalListedSize p as"
  using assms
proof (induction as arbitrary: st)
  case Nil
  then show ?case by (simp add: totalListedSize_def)
next
  case (Cons a as)
  obtain r1 st1 where one: "packOne p t a st = (r1, st1)" by (cases "packOne p t a st") auto
  show ?case
  proof (cases r1)
    case None
    with Cons.prems one have rest: "packAll p t as st1 = (None, st')" by simp
    from one None have "packOne p t a st = (None, st1)" by simp
    from packOne_size [OF this] Cons.IH [OF rest] show ?thesis
      by (simp add: totalListedSize_def)
  next
    case (Some e)
    with Cons.prems one show ?thesis by simp
  qed
qed

lemma packAll_error:
  "fst (packAll p t as st) = None \<longleftrightarrow> (\<forall>a \<in> set as. packs p a)"
proof (induction as arbitrary: st)
  case Nil
  then show ?case by simp
next
  case (Cons a as)
  obtain r1 st1 where one: "packOne p t a st = (r1, st1)" by (cases "packOne p t a st") auto
  have r1: "r1 = None \<longleftrightarrow> packs p a" using packOne_error [of p t a st] one by simp
  show ?case
  proof (cases r1)
    case None
    then show ?thesis using one r1 Cons.IH [of st1] by simp
  next
    case (Some e)
    then show ?thesis using one r1 by simp
  qed
qed

lemma initialDefines_frame:
  "k \<notin> {''APP_ID'', ''APP_GUID'', ''UNINSTALL_APP_KEY'', ''PRODUCT_NAME'', ''PRODUCT_FILENAME'',
         ''APP_FILENAME'', ''APP_DESCRIPTION'', ''VERSION'', ''PROJECT_DIR'',
         ''BUILD_RESOURCES_DIR'', ''APP_PACKAGE_NAME'', ''ENABLE_LOGGING_ELECTRON_BUILDER'',
         ''UNINSTALL_REGISTRY_KEY_2'', ''UNINSTALL_URL_HELP'', ''UNINSTALL_URL_INFO_ABOUT'',
         ''UNINSTALL_URL_UPDATE_INFO'', ''UNINSTALL_URL_README''}
   \<Longrightarrow> initialDefines p opts oc pm k = None"
  unfolding initialDefines_def Let_def
  by (simp add: setFlagIf_apply use_apply)

lemma configureDefinesForAllTypeOfInstaller_frame:
  "k \<notin> {''COMPANY_NAME'', ''APP_PRODUCT_FILENAME'', ''APP_PACKAGE_STORE_FILE'',
         ''APP_INSTALLER_STORE_FILE'', ''ZIP_COMPRESSION'', ''COMPRESSION_METHOD''}
   \<Longrightarrow> configureDefinesForAllTypeOfInstaller p t d k = d k"
  unfolding configureDefinesForAllTypeOfInstaller_def Let_def
  by (simp add: setFlagIf_apply use_apply)

lemma portableDefines_frame:
  "k \<notin> {''REQUEST_EXECUTION_LEVEL'', ''UNPACK_DIR_NAME'', ''SPLASH_IMAGE''}
   \<Longrightarrow> portableDefines p opts d k = d k"
  unfolding portableDefines_def Let_def
  by (simp split: option.splits StringOrBoolean.splits)

lemma tasks_frame:
  "k \<notin> {''HEADER_ICO''} \<Longrightarrow> installerHeaderIconTask p opts d k = d k"
  "k \<notin> {''MUI_HEADERIMAGE'', ''MUI_HEADERIMAGE_RIGHT'', ''MUI_HEADERIMAGE_BITMAP''}
     \<Longrightarrow> installerHeaderTask p opts d k = d k"
  "k \<notin> {''MUI_WELCOMEFINISHPAGE_BITMAP'', ''MUI_UNWELCOMEFINISHPAGE_BITMAP''}
     \<Longrightarrow> sidebarTask p opts d k = d k"
  "k \<notin> {''UNINSTALLER_ICON'', ''MUI_UNICON''} \<Longrightarrow> uninstallerIconTask p opts d k = d k"
  by (simp_all add: installerHeaderIconTask_def installerHeaderTask_def sidebarTask_def
      uninstallerIconTask_def Let_def split: option.splits)


lemma configureDefines_Inl:
  "configureDefines p opts oc d = Inl e \<longleftrightarrow>
     oc \<and> (if truthy (allowToChangeInstallationDirectory opts)
          then e = InvalidConfigurationError
                 ''allowToChangeInstallationDirectory makes sense only for assisted installer (please set oneClick to false)''
          else truthy (allowToAddShortcut opts) \<and>
               e = InvalidConfigurationError
                 ''allowToAddShortcut makes sense only for assisted installer (please set oneClick to false)'')"
  unfolding configureDefines_def Let_def by auto

lemma configureDefines_keys:
  assumes "configureDefines p opts oc d = Inr d'"
  shows "d' ''MULTIUSER_INSTALLMODE_ALLOW_ELEVATION'' =
           (if \<not> oc \<and> allowElevation opts \<noteq> Some False then Some Flag
            else d ''MULTIUSER_INSTALLMODE_ALLOW_ELEVATION'')"
    and "d' ''ALLOW_TO_ADD_SHORTCUT'' =
           (if \<not> oc \<and> truthy (allowToAddShortcut opts) then Some Flag
            else d ''ALLOW_TO_ADD_SHORTCUT'')"
    and "d' ''removeDefaultUninstallWelcomePage'' =
           (if truthy (removeDefaultUninstallWelcomePage opts) then Some Flag
            else d ''removeDefaultUninstallWelcomePage'')"
    and "d' ''ESTIMATED_SIZE'' = d ''ESTIMATED_SIZE''"
    and "d' ''BUILD_UNINSTALLER'' = d ''BUILD_UNINSTALLER''"
proof -
  have a: "\<not> (truthy (allowToChangeInstallationDirectory opts) \<and> oc)"
    and b: "\<not> (truthy (allowToAddShortcut opts) \<and> oc)"
    using assms unfolding configureDefines_def Let_def by (auto split: if_splits)
  note d' = assms [unfolded configureDefines_def Let_def awaitTasks_def, simplified a b if_False,
      simplified, symmetric]
  show "d' ''MULTIUSER_INSTALLMODE_ALLOW_ELEVATION'' =
           (if \<not> oc \<and> allowElevation opts \<noteq> Some False then Some Flag
            else d ''MULTIUSER_INSTALLMODE_ALLOW_ELEVATION'')"
    by (subst d') (simp add: setFlagIf_apply use_apply tasks_frame)
  show "d' ''ALLOW_TO_ADD_SHORTCUT'' =
           (if \<not> oc \<and> truthy (allowToAddShortcut opts) then Some Flag
            else d ''ALLOW_TO_ADD_SHORTCUT'')"
    using b by (subst d') (simp add: setFlagIf_apply use_apply tasks_frame)
  show "d' ''removeDefaultUninstallWelcomePage'' =
           (if truthy (removeDefaultUninstallWelcomePage opts) then Some Flag
            else d ''removeDefaultUninstallWelcomePage'')"
    by (subst d') (simp add: setFlagIf_apply use_apply tasks_frame)
  show "d' ''ESTIMATED_SIZE'' = d ''ESTIMATED_SIZE''"
    by (subst d') (simp add: setFlagIf_apply use_apply tasks_frame)
  show "d' ''BUILD_UNINSTALLER'' = d ''BUILD_UNINSTALLER''"
    by (subst d') (simp add: setFlagIf_apply use_apply tasks_frame)
qed

lemma iconDefines_frame:
  "k \<notin> {''MUI_ICON'', ''MUI_UNICON''} \<Longrightarrow> iconDefines p t d k = d k"
  by (simp add: iconDefines_def Let_def split: option.splits)

lemma sizeDefines_apply:
  "sizeDefines n d k =
     (if n \<noteq> 0 \<and> k = ''ESTIMATED_SIZE'' then Some (Num ((n + 512) div 1024)) else d k)"
  by (simp add: sizeDefines_def)

lemma compressionDefines_frame:
  "k \<noteq> ''COMPRESS'' \<Longrightarrow> compressionDefines p t d k = d k"
  by (simp add: compressionDefines_def)

lemma appDir_fold_frame:
  "take 4 k \<noteq> ''APP_'' \<Longrightarrow>
   fold (\<lambda>(arch, dir) d. d(appDirKey arch \<mapsto> Str dir)) archMap d k = d k"
proof (induction archMap arbitrary: d)
  case Nil
  then show ?case by simp
next
  case (Cons a archMap)
  obtain arch dir where a: "a = (arch, dir)" by (cases a) auto
  have "k \<noteq> appDirKey arch" using Cons.prems by (auto simp: appDirKey_def)
  then show ?case using Cons a by simp
qed

lemma packDefines_frame:
  assumes "take 4 k \<noteq> ''APP_''" and "packDefines p t archMap st = (r, st')"
  shows "fst st' k = fst st k"
proof -
  obtain d n pf evs where st: "st = (d, n, pf, evs)" by (cases st) auto
  show ?thesis
  proof (cases "isPortable t \<and> truthy (useZip (options t))")
    case True
    then show ?thesis
      using assms(2) appDir_fold_frame [OF assms(1)] unfolding st packDefines_def by auto
  next
    case False
    then have "packAll p t (map fst archMap) st = (r, st')"
      using assms(2) unfolding st packDefines_def by (auto split: if_splits)
    from packAll_frame [OF assms(1) this] show ?thesis .
  qed
qed

lemma packDefines_events:
  assumes "packDefines p t archMap st = (r, st')"
  shows "filter isMakensis (snd (snd (snd st'))) = filter isMakensis (snd (snd (snd st)))"
proof -
  obtain d n pf evs where st: "st = (d, n, pf, evs)" by (cases st) auto
  show ?thesis
  proof (cases "isPortable t \<and> truthy (useZip (options t))")
    case True
    then show ?thesis using assms unfolding st packDefines_def by auto
  next
    case False
    then have "packAll p t (map fst archMap) st = (r, st')"
      using assms unfolding st packDefines_def by (auto split: if_splits)
    from packAll_events [OF this] show ?thesis .
  qed
qed

text \<open>How \<^verbatim>\<open>buildInstaller\<close> ends, in terms of its stages.\<close>

lemma buildInstallerDefines_cases:
  obtains (pack_error) e st where
      "packDefines p t archMap
         (iconDefines p t (initialDefines p (options t) (oneClick (options t) \<noteq> Some False)
            (perMachine (options t) = Some True)), 0, [],
          [ArtifactBuildStarted (installerPath p t archMap)]) = (Some e, st)"
      "buildInstallerDefines p t archMap = (Inl e, snd (snd (snd st)))"
  | (config_error) d1 n pf evs e where
      "packDefines p t archMap
         (iconDefines p t (initialDefines p (options t) (oneClick (options t) \<noteq> Some False)
            (perMachine (options t) = Some True)), 0, [],
          [ArtifactBuildStarted (installerPath p t archMap)]) = (None, (d1, n, pf, evs))"
      "\<not> isPortable t"
      "configureDefines p (options t) (oneClick (options t) \<noteq> Some False)
         (configureDefinesForAllTypeOfInstaller p t d1) = Inl e"
      "buildInstallerDefines p t archMap = (Inl e, evs)"
  | (portable) d1 n pf evs where
      "packDefines p t archMap
         (iconDefines p t (initialDefines p (options t) (oneClick (options t) \<noteq> Some False)
            (perMachine (options t) = Some True)), 0, [],
          [ArtifactBuildStarted (installerPath p t archMap)]) = (None, (d1, n, pf, evs))"
      "isPortable t"
      "buildInstallerDefines p t archMap =
         (Inr (compressionDefines p t (sizeDefines n
            (portableDefines p (options t) (configureDefinesForAllTypeOfInstaller p t d1))), pf), evs)"
  | (installer) d1 n pf evs d2 where
      "packDefines p t archMap
         (iconDefines p t (initialDefines p (options t) (oneClick (options t) \<noteq> Some False)
            (perMachine (options t) = Some True)), 0, [],
          [ArtifactBuildStarted (installerPath p t archMap)]) = (None, (d1, n, pf, evs))"
      "\<not> isPortable t"
      "configureDefines p (options t) (oneClick (options t) \<noteq> Some False)
         (configureDefinesForAllTypeOfInstaller p t d1) = Inr d2"
      "buildInstallerDefines p t archMap =
         (Inr (compressionDefines p t (sizeDefines n d2), pf), evs)"
proof -
  let ?st0 = "(iconDefines p t (initialDefines p (options t) (oneClick (options t) \<noteq> Some False)
            (perMachine (options t) = Some True)), 0, [],
          [ArtifactBuildStarted (installerPath p t archMap)])"
  obtain r d1 n pf evs where pk: "packDefines p t archMap ?st0 = (r, (d1, n, pf, evs))"
    by (cases "packDefines p t archMap ?st0") auto
  show thesis
  proof (cases r)
    case (Some e)
    have "buildInstallerDefines p t archMap = (Inl e, evs)"
      unfolding buildInstallerDefines_def Let_def using pk Some by simp
    with pk Some pack_error [of e "(d1, n, pf, evs)"] show thesis by simp
  next
    case None
    show thesis
    proof (cases "isPortable t")
      case True
      have "buildInstallerDefines p t archMap =
         (Inr (compressionDefines p t (sizeDefines n
            (portableDefines p (options t) (configureDefinesForAllTypeOfInstaller p t d1))), pf), evs)"
        unfolding buildInstallerDefines_def Let_def using pk None True by simp
      with pk None True portable show thesis by simp
    next
      case False
      show thesis
      proof (cases "configureDefines p (options t) (oneClick (options t) \<noteq> Some False)
         (configureDefinesForAllTypeOfInstaller p t d1)")
        case (Inl e)
        have "buildInstallerDefines p t archMap = (Inl e, evs)"
          unfolding buildInstallerDefines_def Let_def using pk None False Inl by simp
        with pk None False Inl config_error show thesis by simp
      next
        case (Inr d2)
        have "buildInstallerDefines p t archMap =
           (Inr (compressionDefines p t (sizeDefines n d2), pf), evs)"
          unfolding buildInstallerDefines_def Let_def using pk None False Inr by simp
        with pk None False Inr installer show thesis by simp
      qed
    qed
  qed
qed


lemma packDefines_size:
  assumes "\<not> (isPortable t \<and> truthy (useZip (options t)))"
    and "packDefines p t archMap (d, n, pf, evs) = (None, (d', n', pf', evs'))"
  shows "n' = n + totalListedSize p (map fst archMap)"
proof -
  have "packAll p t (map fst archMap) (d, n, pf, evs) = (None, (d', n', pf', evs'))"
    using assms unfolding packDefines_def by (auto split: if_splits)
  from packAll_size [OF this] show ?thesis by simp
qed

lemma packDefines_error:
  assumes "\<not> (isPortable t \<and> truthy (useZip (options t)))"
  shows "fst (packDefines p t archMap st) = None \<longleftrightarrow> (\<forall>a \<in> set (map fst archMap). packs p a)"
proof -
  obtain d n pf evs where st: "st = (d, n, pf, evs)" by (cases st) auto
  have "packDefines p t archMap st = packAll p t (map fst archMap) st"
    using assms unfolding st packDefines_def by auto
  then show ?thesis using packAll_error [of p t "map fst archMap" st] by simp
qed

text \<open>The defines that the mode decides, in the table of an installer that is not portable.\<close>

lemma buildInstallerDefines_keys:
  assumes "buildInstallerDefines p t archMap = (Inr (d, pf), evs)" and "\<not> isPortable t"
  shows "d ''MULTIUSER_INSTALLMODE_ALLOW_ELEVATION'' =
           (if oneClick (options t) = Some False \<and> allowElevation (options t) \<noteq> Some False
            then Some Flag else None)"
    and "d ''ALLOW_TO_ADD_SHORTCUT'' =
           (if oneClick (options t) = Some False \<and> truthy (allowToAddShortcut (options t))
            then Some Flag else None)"
    and "d ''removeDefaultUninstallWelcomePage'' =
           (if truthy (removeDefaultUninstallWelcomePage (options t)) then Some Flag else None)"
    and "d ''BUILD_UNINSTALLER'' = None"
    and "d ''ESTIMATED_SIZE'' =
           (if totalListedSize p (map fst archMap) = 0 then None
            else Some (Num ((totalListedSize p (map fst archMap) + 512) div 1024)))"
proof -
  let ?d0 = "iconDefines p t (initialDefines p (options t) (oneClick (options t) \<noteq> Some False)
            (perMachine (options t) = Some True))"
  from assms obtain d1 n pf1 evs1 d2 where
    pk: "packDefines p t archMap (?d0, 0, [], [ArtifactBuildStarted (installerPath p t archMap)])
          = (None, (d1, n, pf1, evs1))"
    and cfg: "configureDefines p (options t) (oneClick (options t) \<noteq> Some False)
         (configureDefinesForAllTypeOfInstaller p t d1) = Inr d2"
    and d: "d = compressionDefines p t (sizeDefines n d2)"
    by (cases p t archMap rule: buildInstallerDefines_cases) auto
  have n: "n = totalListedSize p (map fst archMap)"
    using packDefines_size [OF _ pk] assms(2) by simp
  have d1: "d1 k = None" if "take 4 k \<noteq> ''APP_''"
      "k \<notin> {''MUI_ICON'', ''MUI_UNICON''}"
      "k \<notin> {''APP_ID'', ''APP_GUID'', ''UNINSTALL_APP_KEY'', ''PRODUCT_NAME'', ''PRODUCT_FILENAME'',
         ''APP_FILENAME'', ''APP_DESCRIPTION'', ''VERSION'', ''PROJECT_DIR'',
         ''BUILD_RESOURCES_DIR'', ''APP_PACKAGE_NAME'', ''ENABLE_LOGGING_ELECTRON_BUILDER'',
         ''UNINSTALL_REGISTRY_KEY_2'', ''UNINSTALL_URL_HELP'', ''UNINSTALL_URL_INFO_ABOUT'',
         ''UNINSTALL_URL_UPDATE_INFO'', ''UNINSTALL_URL_README''}" for k
    using packDefines_frame [OF that(1) pk] iconDefines_frame [OF that(2)]
      initialDefines_frame [OF that(3)] by simp
  note cd = configureDefines_keys [OF cfg]
  show "d ''MULTIUSER_INSTALLMODE_ALLOW_ELEVATION'' =
           (if oneClick (options t) = Some False \<and> allowElevation (options t) \<noteq> Some False
            then Some Flag else None)"
    unfolding d
    by (simp add: compressionDefines_frame sizeDefines_apply cd(1)
        configureDefinesForAllTypeOfInstaller_frame d1)
  show "d ''ALLOW_TO_ADD_SHORTCUT'' =
           (if oneClick (options t) = Some False \<and> truthy (allowToAddShortcut (options t))
            then Some Flag else None)"
    unfolding d
    by (simp add: compressionDefines_frame sizeDefines_apply cd(2)
        configureDefinesForAllTypeOfInstaller_frame d1)
  show "d ''removeDefaultUninstallWelcomePage'' =
           (if truthy (removeDefaultUninstallWelcomePage (options t)) then Some Flag else None)"
    unfolding d
    by (simp add: compressionDefines_frame sizeDefines_apply cd(3)
        configureDefinesForAllTypeOfInstaller_frame d1)
  show "d ''BUILD_UNINSTALLER'' = None"
    unfolding d
    by (simp add: compressionDefines_frame sizeDefines_apply cd(5)
        configureDefinesForAllTypeOfInstaller_frame d1)
  show "d ''ESTIMATED_SIZE'' =
           (if totalListedSize p (map fst archMap) = 0 then None
            else Some (Num ((totalListedSize p (map fst archMap) + 512) div 1024)))"
    unfolding d n [symmetric]
    by (simp add: compressionDefines_frame sizeDefines_apply cd(4)
        configureDefinesForAllTypeOfInstaller_frame d1)
qed

lemma buildInstallerDefines_succeeds:
  assumes "\<not> (isPortable t \<and> truthy (useZip (options t)))"
    and "\<forall>a \<in> set (map fst archMap). packs p a"
    and "\<not> isPortable t \<and> oneClick (options t) \<noteq> Some False \<longrightarrow>
           \<not> truthy (allowToChangeInstallationDirectory (options t)) \<and>
           \<not> truthy (allowToAddShortcut (options t))"
  shows "\<exists>d pf evs. buildInstallerDefines p t archMap = (Inr (d, pf), evs)"
proof (cases p t archMap rule: buildInstallerDefines_cases)
  case (pack_error e st)
  then show ?thesis
    using packDefines_error [OF assms(1), of p archMap] assms(2)
    by (metis fst_conv option.distinct(1))
next
  case (config_error d1 n pf evs e)
  then show ?thesis using assms(3) by (auto simp: configureDefines_Inl split: if_splits)
next
  case (portable d1 n pf evs)
  then show ?thesis by blast
next
  case (installer d1 n pf evs d2)
  then show ?thesis by blast
qed

lemma buildInstallerDefines_size:
  assumes "buildInstallerDefines p t archMap = (Inr (d, pf), evs)"
    and "\<not> (isPortable t \<and> truthy (useZip (options t)))"
  shows "d ''ESTIMATED_SIZE'' =
           (if totalListedSize p (map fst archMap) = 0 then None
            else Some (Num ((totalListedSize p (map fst archMap) + 512) div 1024)))"
proof (cases "isPortable t")
  case False
  from buildInstallerDefines_keys(5) [OF assms(1) False] show ?thesis .
next
  case True
  let ?d0 = "iconDefines p t (initialDefines p (options t) (oneClick (options t) \<noteq> Some False)
            (perMachine (options t) = Some True))"
  from assms(1) True obtain d1 n pf1 evs1 where
    pk: "packDefines p t archMap (?d0, 0, [], [ArtifactBuildStarted (installerPath p t archMap)])
          = (None, (d1, n, pf1, evs1))"
    and d: "d = compressionDefines p t (sizeDefines n
            (portableDefines p (options t) (configureDefinesForAllTypeOfInstaller p t d1)))"
    by (cases p t archMap rule: buildInstallerDefines_cases) auto
  have n: "n = totalListedSize p (map fst archMap)"
    using packDefines_size [OF assms(2) pk] by simp
  have "d1 ''ESTIMATED_SIZE'' = None"
    using packDefines_frame [of "''ESTIMATED_SIZE''", OF _ pk]
    by (simp add: iconDefines_frame initialDefines_frame)
  then show ?thesis
    unfolding d n [symmetric]
    by (simp add: compressionDefines_frame sizeDefines_apply portableDefines_frame
        configureDefinesForAllTypeOfInstaller_frame)
qed

lemma configureDefines_throws:
  assumes "truthy (allowToChangeInstallationDirectory opts) \<or> truthy (allowToAddShortcut opts)"
  shows "configureDefines p opts True d =
           Inl (InvalidConfigurationError
              (if truthy (allowToChangeInstallationDirectory opts)
               then ''allowToChangeInstallationDirectory makes sense only for assisted installer (please set oneClick to false)''
               else ''allowToAddShortcut makes sense only for assisted installer (please set oneClick to false)''))"
  using assms unfolding configureDefines_def Let_def by auto

lemma buildInstallerDefines_config_error:
  assumes "\<not> isPortable t" and "\<forall>a \<in> set (map fst archMap). packs p a"
    and "oneClick (options t) \<noteq> Some False"
    and "truthy (allowToChangeInstallationDirectory (options t)) \<or>
         truthy (allowToAddShortcut (options t))"
  shows "\<exists>evs. buildInstallerDefines p t archMap =
           (Inl (InvalidConfigurationError
              (if truthy (allowToChangeInstallationDirectory (options t))
               then ''allowToChangeInstallationDirectory makes sense only for assisted installer (please set oneClick to false)''
               else ''allowToAddShortcut makes sense only for assisted installer (please set oneClick to false)'')),
            evs) \<and> filter isMakensis evs = []"
proof (cases p t archMap rule: buildInstallerDefines_cases)
  case (pack_error e st)
  then show ?thesis
    using packDefines_error [of t p archMap] assms(1,2) by (metis fst_conv option.distinct(1))
next
  case (config_error d1 n pf evs e)
  have "filter isMakensis evs = []"
    using packDefines_events [OF config_error(1)] by simp
  moreover have "e = InvalidConfigurationError
              (if truthy (allowToChangeInstallationDirectory (options t))
               then ''allowToChangeInstallationDirectory makes sense only for assisted installer (please set oneClick to false)''
               else ''allowToAddShortcut makes sense only for assisted installer (please set oneClick to false)'')"
    using config_error(3) assms(3)
      configureDefines_throws [OF assms(4), of p "configureDefinesForAllTypeOfInstaller p t d1"]
    by simp
  ultimately show ?thesis using config_error(4) by simp
next
  case (portable d1 n pf evs)
  then show ?thesis using assms(1) by simp
next
  case (installer d1 n pf evs d2)
  then show ?thesis
    using assms(3) configureDefines_throws [OF assms(4), of p "configureDefinesForAllTypeOfInstaller p t d1"]
    by simp
qed

lemma noOptions_fields:
  "oneClick noOptions = None" "perMachine noOptions = None" "allowElevation noOptions = None"
  "allowToAddShortcut noOptions = None" "allowToChangeInstallationDirectory noOptions = None"
  "removeDefaultUninstallWelcomePage noOptions = None" "packElevateHelper noOptions = None"
  "useZip noOptions = None" "differentialPackage noOptions = None" "script noOptions = None"
  by (simp_all add: noOptions_def)

lemma options_sampleTarget: "options (sampleTarget opts) = opts"
  by (simp add: sampleTarget_def)

lemma packs_samplePackager: "packs samplePackager a"
  by (simp add: packs_def samplePackager_def)

lemma packs_x64ListedPackager: "packs x64ListedPackager a"
  by (simp add: packs_def x64ListedPackager_def samplePackager_def)

lemma isPortable_sampleTarget: "\<not> isPortable (sampleTarget opts)"
  by (simp add: isPortable_def sampleTarget_def)

text \<open>
  Claim C1, as the code has it. For every configuration with \<^verbatim>\<open>perMachine\<close> not
  \<^verbatim>\<open>true\<close> and \<^verbatim>\<open>oneClick\<close> not \<^verbatim>\<open>false\<close>, the defines table of an installer that is
  not portable holds neither \<^verbatim>\<open>MULTIUSER_INSTALLMODE_ALLOW_ELEVATION\<close> nor
  \<^verbatim>\<open>ALLOW_TO_ADD_SHORTCUT\<close>. The define \<^verbatim>\<open>removeDefaultUninstallWelcomePage\<close> does not
  depend on the mode: it is in the table exactly when the option of that name is set.
\<close>

theorem oneClick_defines_assisted_keys:
  assumes "\<not> isPortable t" and "perMachine (options t) \<noteq> Some True"
    and "oneClick (options t) \<noteq> Some False"
    and "buildInstallerDefines p t archMap = (Inr (d, pf), evs)"
  shows "d ''MULTIUSER_INSTALLMODE_ALLOW_ELEVATION'' = None \<and>
         d ''ALLOW_TO_ADD_SHORTCUT'' = None \<and>
         (d ''removeDefaultUninstallWelcomePage'' \<noteq> None \<longleftrightarrow>
            truthy (removeDefaultUninstallWelcomePage (options t)))"
  using buildInstallerDefines_keys(1-3) [OF assms(4,1)] assms(3) by simp

theorem oneClick_defines_assisted_keys_witness:
  "\<not> isl (fst (buildInstallerDefines samplePackager (sampleTarget noOptions) [(x64, ''dist/win-unpacked'')])) \<and>
   fst (projr (fst (buildInstallerDefines samplePackager (sampleTarget noOptions) [(x64, ''dist/win-unpacked'')])))
     ''MULTIUSER_INSTALLMODE_ALLOW_ELEVATION'' = None \<and>
   fst (projr (fst (buildInstallerDefines samplePackager (sampleTarget noOptions) [(x64, ''dist/win-unpacked'')])))
     ''ALLOW_TO_ADD_SHORTCUT'' = None \<and>
   fst (projr (fst (buildInstallerDefines samplePackager (sampleTarget noOptions) [(x64, ''dist/win-unpacked'')])))
     ''removeDefaultUninstallWelcomePage'' = None"
proof -
  have o: "options (sampleTarget noOptions) = noOptions" by (simp add: sampleTarget_def)
  obtain d pf evs where
    b: "buildInstallerDefines samplePackager (sampleTarget noOptions) [(x64, ''dist/win-unpacked'')]
          = (Inr (d, pf), evs)"
    using buildInstallerDefines_succeeds [of "sampleTarget noOptions" "[(x64, ''dist/win-unpacked'')]" samplePackager]
      isPortable_sampleTarget packs_samplePackager
    by (auto simp: o noOptions_fields truthy_def)
  show ?thesis
    using oneClick_defines_assisted_keys [OF isPortable_sampleTarget _ _ b] b
    by (simp add: o noOptions_fields truthy_def)
qed

text \<open>
  Claim C1, as stated, fails: a one-click, per-user configuration that sets
  \<^verbatim>\<open>removeDefaultUninstallWelcomePage\<close> builds its defines without error, and the table
  holds the welcome-page define.
\<close>

theorem oneClick_welcome_page_define_counterexample:
  "\<not> isl (fst (buildInstallerDefines samplePackager
       (sampleTarget (noOptions\<lparr>oneClick := Some True, perMachine := Some False,
                                 removeDefaultUninstallWelcomePage := Some True\<rparr>))
       [(x64, ''dist/win-unpacked'')])) \<and>
   fst (projr (fst (buildInstallerDefines samplePackager
       (sampleTarget (noOptions\<lparr>oneClick := Some True, perMachine := Some False,
                                 removeDefaultUninstallWelcomePage := Some True\<rparr>))
       [(x64, ''dist/win-unpacked'')])))
     ''removeDefaultUninstallWelcomePage'' = Some Flag"
proof -
  let ?opts = "noOptions\<lparr>oneClick := Some True, perMachine := Some False,
                                 removeDefaultUninstallWelcomePage := Some True\<rparr>"
  have o: "options (sampleTarget ?opts) = ?opts" by (simp add: sampleTarget_def)
  obtain d pf evs where
    b: "buildInstallerDefines samplePackager (sampleTarget ?opts) [(x64, ''dist/win-unpacked'')]
          = (Inr (d, pf), evs)"
    using buildInstallerDefines_succeeds [of "sampleTarget ?opts" "[(x64, ''dist/win-unpacked'')]" samplePackager]
      isPortable_sampleTarget packs_samplePackager
    by (auto simp: o noOptions_fields truthy_def)
  show ?thesis
    using buildInstallerDefines_keys(3) [OF b isPortable_sampleTarget] b
    by (simp add: o noOptions_fields truthy_def)
qed

text \<open>
  Claim C2, as the code has it. In one-click mode, for an installer that is not portable
  and whose packages were built: when \<^verbatim>\<open>allowToChangeInstallationDirectory\<close> or
  \<^verbatim>\<open>allowToAddShortcut\<close> is set, \<^verbatim>\<open>buildInstaller\<close> ends with the configuration error
  whose message starts with the name of the option (the first of the two when both are
  set), and no compiler has run by then; when neither is set there is no configuration
  error, whatever \<^verbatim>\<open>allowElevation\<close> is, and the table does not hold
  \<^verbatim>\<open>MULTIUSER_INSTALLMODE_ALLOW_ELEVATION\<close>: that option is ignored.
\<close>

theorem oneClick_assisted_option_error:
  assumes "\<not> isPortable t" and "oneClick (options t) \<noteq> Some False"
    and "\<forall>a \<in> set (map fst archMap). packs p a"
  shows "(truthy (allowToChangeInstallationDirectory (options t)) \<or>
          truthy (allowToAddShortcut (options t)) \<longrightarrow>
            buildInstaller tools p t archMap w =
              Some (Some (InvalidConfigurationError
                      (if truthy (allowToChangeInstallationDirectory (options t))
                       then ''allowToChangeInstallationDirectory makes sense only for assisted installer (please set oneClick to false)''
                       else ''allowToAddShortcut makes sense only for assisted installer (please set oneClick to false)'')),
                    emit (snd (buildInstallerDefines p t archMap)) w) \<and>
            filter isMakensis (snd (buildInstallerDefines p t archMap)) = []) \<and>
         (\<not> truthy (allowToChangeInstallationDirectory (options t)) \<and>
          \<not> truthy (allowToAddShortcut (options t)) \<longrightarrow>
            \<not> isl (fst (buildInstallerDefines p t archMap)) \<and>
            fst (projr (fst (buildInstallerDefines p t archMap)))
              ''MULTIUSER_INSTALLMODE_ALLOW_ELEVATION'' = None)"
proof (intro conjI impI)
  assume ab: "truthy (allowToChangeInstallationDirectory (options t)) \<or>
          truthy (allowToAddShortcut (options t))"
  from buildInstallerDefines_config_error [OF assms(1,3,2) ab]
  obtain evs where e: "buildInstallerDefines p t archMap =
           (Inl (InvalidConfigurationError
              (if truthy (allowToChangeInstallationDirectory (options t))
               then ''allowToChangeInstallationDirectory makes sense only for assisted installer (please set oneClick to false)''
               else ''allowToAddShortcut makes sense only for assisted installer (please set oneClick to false)'')),
            evs)" and m: "filter isMakensis evs = []" by blast
  show "buildInstaller tools p t archMap w =
              Some (Some (InvalidConfigurationError
                      (if truthy (allowToChangeInstallationDirectory (options t))
                       then ''allowToChangeInstallationDirectory makes sense only for assisted installer (please set oneClick to false)''
                       else ''allowToAddShortcut makes sense only for assisted installer (please set oneClick to false)'')),
                    emit (snd (buildInstallerDefines p t archMap)) w)"
    unfolding buildInstaller_def e by simp
  show "filter isMakensis (snd (buildInstallerDefines p t archMap)) = []"
    unfolding e using m by simp
next
  assume ab: "\<not> truthy (allowToChangeInstallationDirectory (options t)) \<and>
          \<not> truthy (allowToAddShortcut (options t))"
  from buildInstallerDefines_succeeds [of t archMap p] assms(1,3) ab
  obtain d pf evs where b: "buildInstallerDefines p t archMap = (Inr (d, pf), evs)" by blast
  show "\<not> isl (fst (buildInstallerDefines p t archMap))" unfolding b by simp
  show "fst (projr (fst (buildInstallerDefines p t archMap)))
              ''MULTIUSER_INSTALLMODE_ALLOW_ELEVATION'' = None"
    unfolding b using buildInstallerDefines_keys(1) [OF b assms(1)] assms(2) by simp
qed

theorem oneClick_assisted_option_error_witness:
  "buildInstaller sampleTools samplePackager
     (sampleTarget (noOptions\<lparr>allowToAddShortcut := Some True\<rparr>)) [(x64, ''dist/win-unpacked'')]
     emptyWorld =
   Some (Some (InvalidConfigurationError
     ''allowToAddShortcut makes sense only for assisted installer (please set oneClick to false)''),
     emit (snd (buildInstallerDefines samplePackager
                  (sampleTarget (noOptions\<lparr>allowToAddShortcut := Some True\<rparr>))
                  [(x64, ''dist/win-unpacked'')])) emptyWorld) \<and>
   filter isMakensis (snd (buildInstallerDefines samplePackager
                  (sampleTarget (noOptions\<lparr>allowToAddShortcut := Some True\<rparr>))
                  [(x64, ''dist/win-unpacked'')])) = [] \<and>
   \<not> isl (fst (buildInstallerDefines samplePackager (sampleTarget noOptions)
                  [(x64, ''dist/win-unpacked'')]))"
  using oneClick_assisted_option_error [of "sampleTarget (noOptions\<lparr>allowToAddShortcut := Some True\<rparr>)"
      "[(x64, ''dist/win-unpacked'')]" samplePackager sampleTools emptyWorld]
    oneClick_assisted_option_error [of "sampleTarget noOptions"
      "[(x64, ''dist/win-unpacked'')]" samplePackager sampleTools emptyWorld]
    isPortable_sampleTarget packs_samplePackager
  by (simp add: options_sampleTarget noOptions_fields truthy_def)

text \<open>
  Claim C2, as stated, fails: a one-click configuration that sets the assisted-only
  option \<^verbatim>\<open>allowElevation\<close> gets its defines without any error, and the option leaves
  no trace in them.
\<close>

theorem oneClick_allowElevation_ignored_counterexample:
  "\<not> isl (fst (buildInstallerDefines samplePackager
       (sampleTarget (noOptions\<lparr>allowElevation := Some True\<rparr>)) [(x64, ''dist/win-unpacked'')])) \<and>
   fst (projr (fst (buildInstallerDefines samplePackager
       (sampleTarget (noOptions\<lparr>allowElevation := Some True\<rparr>)) [(x64, ''dist/win-unpacked'')])))
     ''MULTIUSER_INSTALLMODE_ALLOW_ELEVATION'' = None"
proof -
  let ?opts = "noOptions\<lparr>allowElevation := Some True\<rparr>"
  obtain d pf evs where
    b: "buildInstallerDefines samplePackager (sampleTarget ?opts) [(x64, ''dist/win-unpacked'')]
          = (Inr (d, pf), evs)"
    using buildInstallerDefines_succeeds [of "sampleTarget ?opts" "[(x64, ''dist/win-unpacked'')]" samplePackager]
      isPortable_sampleTarget packs_samplePackager
    by (auto simp: options_sampleTarget noOptions_fields truthy_def)
  show ?thesis
    using buildInstallerDefines_keys(1) [OF b isPortable_sampleTarget] b
    by (simp add: options_sampleTarget noOptions_fields truthy_def)
qed

text \<open>
  Claim C5, as the code has it. For every build that lists its packages (every build
  but a portable one with \<^verbatim>\<open>useZip\<close>): \<^verbatim>\<open>ESTIMATED_SIZE\<close> is the rounded number of
  kilobytes of the sum of the sizes reported by the listings that matched, a listing
  that does not match adding nothing; the define is omitted exactly when that sum is 0.
  A listing that does not match never fails the build: the defines are produced
  whenever every package and every listing process succeeded and the mode options are
  consistent.
\<close>

theorem estimated_size_sums_parsed_listings:
  assumes "\<not> (isPortable t \<and> truthy (useZip (options t)))"
  shows "(buildInstallerDefines p t archMap = (Inr (d, pf), evs) \<longrightarrow>
            d ''ESTIMATED_SIZE'' =
              (if totalListedSize p (map fst archMap) = 0 then None
               else Some (Num ((totalListedSize p (map fst archMap) + 512) div 1024)))) \<and>
         ((\<forall>a \<in> set (map fst archMap). packs p a) \<and>
          (\<not> isPortable t \<and> oneClick (options t) \<noteq> Some False \<longrightarrow>
             \<not> truthy (allowToChangeInstallationDirectory (options t)) \<and>
             \<not> truthy (allowToAddShortcut (options t))) \<longrightarrow>
            \<not> isl (fst (buildInstallerDefines p t archMap)))"
proof (intro conjI impI)
  assume "buildInstallerDefines p t archMap = (Inr (d, pf), evs)"
  from buildInstallerDefines_size [OF this assms]
  show "d ''ESTIMATED_SIZE'' =
              (if totalListedSize p (map fst archMap) = 0 then None
               else Some (Num ((totalListedSize p (map fst archMap) + 512) div 1024)))" .
next
  assume a: "(\<forall>a \<in> set (map fst archMap). packs p a) \<and>
          (\<not> isPortable t \<and> oneClick (options t) \<noteq> Some False \<longrightarrow>
             \<not> truthy (allowToChangeInstallationDirectory (options t)) \<and>
             \<not> truthy (allowToAddShortcut (options t)))"
  from buildInstallerDefines_succeeds [OF assms, of archMap p] a
  obtain d pf evs where b: "buildInstallerDefines p t archMap = (Inr (d, pf), evs)" by blast
  show "\<not> isl (fst (buildInstallerDefines p t archMap))" unfolding b by simp
qed

lemma listedSize_sample:
  "listedSize ''2024-01-01 00:00:00  5242880  1048576  12 files'' = Some 5242880"
  by (simp add: listedSize_def trim_def isSpace_def isDigit_def matchAt_def parseInt_def)

lemma listedSize_warning: "listedSize ''Warnings: 1'' = None"
  by (simp add: listedSize_def trim_def isSpace_def isDigit_def matchAt_def parseInt_def)

lemma listedSizeOf_x64Listed:
  "listedSizeOf x64ListedPackager x64 = Some 5242880"
  "listedSizeOf x64ListedPackager ia32 = None"
  by (simp_all add: listedSizeOf_def x64ListedPackager_def samplePackager_def archName_def
      listedSize_sample listedSize_warning)

theorem estimated_size_sums_parsed_listings_witness:
  "\<not> isl (fst (buildInstallerDefines x64ListedPackager (sampleTarget noOptions)
       [(arm64, ''dist/win-arm64-unpacked'')])) \<and>
   fst (projr (fst (buildInstallerDefines x64ListedPackager (sampleTarget noOptions)
       [(arm64, ''dist/win-arm64-unpacked'')])))
     ''ESTIMATED_SIZE'' = None"
proof -
  let ?a = "[(arm64, ''dist/win-arm64-unpacked'')]"
  let ?b = "buildInstallerDefines x64ListedPackager (sampleTarget noOptions) ?a"
  have l: "listedSizeOf x64ListedPackager arm64 = None"
    by (simp add: listedSizeOf_def x64ListedPackager_def samplePackager_def archName_def
      listedSize_warning)
  have t: "totalListedSize x64ListedPackager (map fst ?a) = 0"
    by (simp add: totalListedSize_def l)
  have p: "\<not> (isPortable (sampleTarget noOptions) \<and> truthy (useZip (options (sampleTarget noOptions))))"
    using isPortable_sampleTarget by simp
  have ok: "\<not> isl (fst ?b)"
    using estimated_size_sums_parsed_listings [OF p, of x64ListedPackager ?a] packs_x64ListedPackager
    by (simp add: options_sampleTarget noOptions_fields truthy_def)
  then have b: "?b = (Inr (fst (projr (fst ?b)), snd (projr (fst ?b))), snd ?b)"
    by (cases ?b; cases "fst ?b") auto
  show ?thesis
    using ok estimated_size_sums_parsed_listings [OF p, of x64ListedPackager ?a "fst (projr (fst ?b))" "snd (projr (fst ?b))" "snd ?b"] b t
    by simp
qed

text \<open>
  Claim C5, as stated, fails: with the architectures x64 and ia32, where the listing of
  the ia32 package does not match and the listing of the x64 package reports 5242880
  bytes, the table holds \<^verbatim>\<open>ESTIMATED_SIZE\<close> = 5120, the sum over the one architecture
  that did parse.
\<close>

theorem estimated_size_partial_sum_counterexample:
  "packs x64ListedPackager ia32 \<and> listedSizeOf x64ListedPackager ia32 = None \<and>
   \<not> isl (fst (buildInstallerDefines x64ListedPackager (sampleTarget noOptions)
       [(x64, ''dist/win-unpacked''), (ia32, ''dist/win-ia32-unpacked'')])) \<and>
   fst (projr (fst (buildInstallerDefines x64ListedPackager (sampleTarget noOptions)
       [(x64, ''dist/win-unpacked''), (ia32, ''dist/win-ia32-unpacked'')])))
     ''ESTIMATED_SIZE'' = Some (Num 5120)"
proof -
  let ?a = "[(x64, ''dist/win-unpacked''), (ia32, ''dist/win-ia32-unpacked'')]"
  obtain d pf evs where
    b: "buildInstallerDefines x64ListedPackager (sampleTarget noOptions) ?a = (Inr (d, pf), evs)"
    using buildInstallerDefines_succeeds [of "sampleTarget noOptions" ?a x64ListedPackager]
      isPortable_sampleTarget packs_x64ListedPackager
    by (auto simp: options_sampleTarget noOptions_fields truthy_def)
  have "totalListedSize x64ListedPackager (map fst ?a) = 5242880"
    by (simp add: totalListedSize_def listedSizeOf_x64Listed)
  then have "d ''ESTIMATED_SIZE'' = Some (Num 5120)"
    using buildInstallerDefines_size [OF b] isPortable_sampleTarget by simp
  then show ?thesis
    using b packs_x64ListedPackager listedSizeOf_x64Listed(2) by simp
qed

subsection \<open>The update metadata\<close>

text \<open>
  Claim C6, as the code has it. When update metadata is produced, it records
  \<^verbatim>\<open>isAdminRightsRequired\<close> exactly when the install is per machine (\<^verbatim>\<open>perMachine\<close> is
  \<^verbatim>\<open>true\<close>) and, in addition, the installer is one-click or \<^verbatim>\<open>packElevateHelper\<close> is
  set.
\<close>

theorem admin_rights_flag_condition:
  assumes "computeUpdateInfo tools t installerFile packageFiles = Inr (Some updateInfo)"
  shows "isAdminRightsRequired updateInfo \<longleftrightarrow>
           perMachine (options t) = Some True \<and>
           (oneClick (options t) \<noteq> Some False \<or> truthy (packElevateHelper (options t)))"
  using assms unfolding computeUpdateInfo_def Let_def
  by (auto split: sum.splits option.splits if_splits)

theorem admin_rights_flag_condition_witness:
  "computeUpdateInfo sampleTools (sampleTarget (noOptions\<lparr>perMachine := Some True\<rparr>))
     ''dist/App Setup 1.0.0.exe'' [] =
   Inr (Some \<lparr>payload = [(''dist/App Setup 1.0.0.exe'',
                 \<lparr>path = ''dist/App Setup 1.0.0.exe'', fileSize = 2097152, sha512 = []\<rparr>)],
             isAdminRightsRequired = True\<rparr>) \<and>
   perMachine (options (sampleTarget (noOptions\<lparr>perMachine := Some True\<rparr>))) = Some True \<and>
   oneClick (options (sampleTarget (noOptions\<lparr>perMachine := Some True\<rparr>))) \<noteq> Some False"
proof -
  let ?t = "sampleTarget (noOptions\<lparr>perMachine := Some True\<rparr>)"
  let ?u = "\<lparr>payload = [(''dist/App Setup 1.0.0.exe'',
                 \<lparr>path = ''dist/App Setup 1.0.0.exe'', fileSize = 2097152, sha512 = []\<rparr>)],
             isAdminRightsRequired = True\<rparr>"
  have c: "computeUpdateInfo sampleTools ?t ''dist/App Setup 1.0.0.exe'' [] = Inr (Some ?u)"
    by (simp add: computeUpdateInfo_def sampleTools_def sampleTarget_def noOptions_def
        isBuildDifferentialAware_def isPortable_def)
  show ?thesis
    using admin_rights_flag_condition [OF c] c
    by (simp add: options_sampleTarget noOptions_fields)
qed

text \<open>
  Claim C6, as stated, fails: an installer that packs the elevation helper but is not
  per machine gets update metadata without the flag.
\<close>

theorem admin_rights_elevate_helper_counterexample:
  "computeUpdateInfo sampleTools
     (sampleTarget (noOptions\<lparr>perMachine := Some False, packElevateHelper := Some True\<rparr>))
     ''dist/App Setup 1.0.0.exe'' [] =
   Inr (Some \<lparr>payload = [(''dist/App Setup 1.0.0.exe'',
                 \<lparr>path = ''dist/App Setup 1.0.0.exe'', fileSize = 2097152, sha512 = []\<rparr>)],
             isAdminRightsRequired = False\<rparr>)"
  by (simp add: computeUpdateInfo_def sampleTools_def sampleTarget_def noOptions_def
      isBuildDifferentialAware_def isPortable_def truthy_def)

subsection \<open>The temporary uninstaller\<close>

lemma ensureNotBusy_free: "fs_open 0 \<noteq> EBUSY \<Longrightarrow> \<exists>pr. ensureNotBusy fs_open = Some pr \<and> delays pr = 0"
  using ensureNotBusy_after_locks [of 0 fs_open] by simp

lemma executeMakensis_result:
  assumes "executeMakensis tools D out w = Some (r, w')"
  shows "(makensis tools D \<longrightarrow> r = None \<and> files w' = insert out (files w)) \<and>
         (\<not> makensis tools D \<longrightarrow> r = Some (ExternalFailure ''makensis'') \<and> files w' = files w)"
  using assms unfolding executeMakensis_def emit_def Let_def
  by (auto split: option.splits if_splits)

lemma executeMakensis_free:
  assumes "openOutFile tools D 0 \<noteq> EBUSY"
  shows "executeMakensis tools D out w =
     (if makensis tools D
      then Some (None, \<lparr>files = insert out (files w),
                        events = events w @ [OutFileProbes 0, Makensis out (D ''BUILD_UNINSTALLER'' \<noteq> None)]\<rparr>)
      else Some (Some (ExternalFailure ''makensis''),
                 \<lparr>files = files w,
                  events = events w @ [OutFileProbes 0, Makensis out (D ''BUILD_UNINSTALLER'' \<noteq> None)]\<rparr>))"
proof -
  from ensureNotBusy_free [of "openOutFile tools D"] assms obtain pr where
    "ensureNotBusy (openOutFile tools D) = Some pr" "delays pr = 0" by blast
  then show ?thesis
    unfolding executeMakensis_def emit_def Let_def by simp
qed

lemma computeScriptAndSignUninstaller_out:
  assumes "getResource p (script (options t)) ''installer.nsi'' = None"
    and "computeScriptAndSignUninstaller tools p t dU file w = Some (Inr dU', w1)"
  shows "dU' ''UNINSTALLER_OUT_FILE'' = Some (Str (uninstallerPath tools p t file))"
  using assms unfolding computeScriptAndSignUninstaller_def Let_def
  by (auto split: option.splits prod.splits if_splits)

lemma finishInstaller_result:
  assumes "dU' ''UNINSTALLER_OUT_FILE'' = Some (Str u)"
    and "finishInstaller tools t file d dU' pfs w1 = Some (r, w2)"
  shows "(makensis tools (d(''UNINSTALLER_OUT_FILE'' \<mapsto> Str u)) \<longrightarrow> u \<notin> files w2) \<and>
         (\<not> makensis tools (d(''UNINSTALLER_OUT_FILE'' \<mapsto> Str u)) \<longrightarrow>
            r = Some (ExternalFailure ''makensis'') \<and> files w2 = files w1)"
proof -
  let ?D = "d(''UNINSTALLER_OUT_FILE'' \<mapsto> Str u)"
  obtain r1 wm where ex: "executeMakensis tools ?D file w1 = Some (r1, wm)"
    using assms unfolding finishInstaller_def Let_def
    by (cases "executeMakensis tools ?D file w1") auto
  note res = executeMakensis_result [OF ex]
  show ?thesis
  proof (cases "makensis tools ?D")
    case False
    then show ?thesis
      using assms res ex unfolding finishInstaller_def Let_def by auto
  next
    case True
    with res have r1: "r1 = None" by simp
    have "u \<notin> files w2"
      using assms ex r1 unfolding finishInstaller_def Let_def unlink_def emit_def
      by (auto split: if_splits sum.splits prod.splits option.splits)
    with True show ?thesis by simp
  qed
qed

lemma computeScriptAndSignUninstaller_wine:
  assumes "getResource p (script (options t)) ''installer.nsi'' = None"
    and "\<not> isMacOsCatalina tools" and "execWine tools"
    and "sign tools (uninstallerPath tools p t file)"
    and "openOutFile tools
           (dU(''BUILD_UNINSTALLER'' \<mapsto> Flag, ''UNINSTALLER_OUT_FILE'' \<mapsto>
                 Str (if isWin tools then uninstallerPath tools p t file
                      else path_win32_join tools ''Z:'' (uninstallerPath tools p t file)))) 0 \<noteq> EBUSY"
    and "makensis tools
           (dU(''BUILD_UNINSTALLER'' \<mapsto> Flag, ''UNINSTALLER_OUT_FILE'' \<mapsto>
                 Str (if isWin tools then uninstallerPath tools p t file
                      else path_win32_join tools ''Z:'' (uninstallerPath tools p t file))))"
  shows "computeScriptAndSignUninstaller tools p t dU file w =
     Some (Inr (dU(''BUILD_UNINSTALLER'' := None,
                   ''UNINSTALLER_OUT_FILE'' \<mapsto> Str (uninstallerPath tools p t file))),
           \<lparr>files = insert (uninstallerPath tools p t file) (insert file (files w)),
            events = events w @ [OutFileProbes 0, Makensis file True, ExecWine file,
                                 Sign (uninstallerPath tools p t file)]\<rparr>)"
  unfolding computeScriptAndSignUninstaller_def Let_def
  using assms
  by (simp add: executeMakensis_free materializeUninstaller_def emit_def Let_def)

lemma finishInstaller_returns:
  assumes "openOutFile tools
             (d(''UNINSTALLER_OUT_FILE'' \<mapsto>
                  (case dU' ''UNINSTALLER_OUT_FILE'' of None \<Rightarrow> Flag | Some v \<Rightarrow> v))) 0 \<noteq> EBUSY"
  shows "finishInstaller tools t file d dU' pfs w1 \<noteq> None"
  unfolding finishInstaller_def Let_def
  using assms
  by (simp add: executeMakensis_free split: prod.splits option.splits sum.splits DefineValue.splits)

lemma finishInstaller_compile_fails:
  assumes "openOutFile tools
             (d(''UNINSTALLER_OUT_FILE'' \<mapsto>
                  (case dU' ''UNINSTALLER_OUT_FILE'' of None \<Rightarrow> Flag | Some v \<Rightarrow> v))) 0 \<noteq> EBUSY"
    and "\<not> makensis tools
             (d(''UNINSTALLER_OUT_FILE'' \<mapsto>
                  (case dU' ''UNINSTALLER_OUT_FILE'' of None \<Rightarrow> Flag | Some v \<Rightarrow> v)))"
  shows "finishInstaller tools t file d dU' pfs w1 =
     Some (Some (ExternalFailure ''makensis''),
           \<lparr>files = files w1,
            events = events w1 @ [OutFileProbes 0,
              Makensis file (d ''BUILD_UNINSTALLER'' \<noteq> None)]\<rparr>)"
  unfolding finishInstaller_def Let_def
  using assms
  by (simp add: executeMakensis_free)

lemma sample_paths:
  "installerPath samplePackager (sampleTarget opts) archMap = ''dist/App Setup 1.0.0.exe''"
  "uninstallerPath sampleTools samplePackager (sampleTarget opts) ''dist/App Setup 1.0.0.exe''
     = ''dist/App Setup 1.0.0.__uninstaller.exe''"
  "uninstallerPath stubOnlyTools samplePackager (sampleTarget opts) ''dist/App Setup 1.0.0.exe''
     = ''dist/App Setup 1.0.0.__uninstaller.exe''"
  by (simp_all add: installerPath_def uninstallerPath_def samplePackager_def sampleTarget_def
      sampleTools_def stubOnlyTools_def)

lemma sampleTools_fields:
  "makensis sampleTools = (\<lambda>defines. True)" "openOutFile sampleTools = (\<lambda>defines n. Opened)"
  "sign sampleTools = (\<lambda>f. True)" "\<not> isWin sampleTools" "\<not> isMacOsCatalina sampleTools"
  "execWine sampleTools"
  "makensis stubOnlyTools = (\<lambda>defines. defines ''BUILD_UNINSTALLER'' \<noteq> None)"
  "openOutFile stubOnlyTools = (\<lambda>defines n. Opened)"
  "sign stubOnlyTools = (\<lambda>f. True)" "\<not> isWin stubOnlyTools" "\<not> isMacOsCatalina stubOnlyTools"
  "execWine stubOnlyTools"
  by (simp_all add: sampleTools_def stubOnlyTools_def)

lemma samplePackager_fields:
  "getResource samplePackager = (\<lambda>custom name. None)"
  "effectiveOptionComputed samplePackager = None"
  "shortVersion (appInfo samplePackager) = None"
  by (simp_all add: samplePackager_def sampleAppInfo_def)

text \<open>
  Claim C4, as the code has it. For a target that is not portable and has no custom
  script, once the sub-build has produced the uninstaller and the task has come to an
  end: when the compiler invocation for the installer succeeds, the temporary
  uninstaller is not on disk afterwards (it is unlinked whether or not the installer is
  then signed); when that invocation fails, the task ends with the compiler's failure
  and the files on disk are those the sub-build left, no unlink having run.
\<close>

theorem uninstaller_unlinked_after_compile:
  assumes "\<not> isPortable t"
    and "getResource p (script (options t)) ''installer.nsi'' = None"
    and "queuedTask tools p t archMap d pfs w = Some (r, w2)"
  shows "\<forall>dU' w1.
           computeScriptAndSignUninstaller tools p t
             (case shortVersion (appInfo p) of None \<Rightarrow> d | Some v \<Rightarrow> d(''VERSION'' \<mapsto> Str v))
             (installerPath p t archMap) w = Some (Inr dU', w1) \<longrightarrow>
           (if makensis tools
                 (d(''UNINSTALLER_OUT_FILE'' \<mapsto>
                      Str (uninstallerPath tools p t (installerPath p t archMap))))
            then uninstallerPath tools p t (installerPath p t archMap) \<notin> files w2
            else r = Some (ExternalFailure ''makensis'') \<and> files w2 = files w1)"
proof (intro allI impI)
  fix dU' w1
  let ?file = "installerPath p t archMap"
  let ?u = "uninstallerPath tools p t ?file"
  assume sub: "computeScriptAndSignUninstaller tools p t
             (case shortVersion (appInfo p) of None \<Rightarrow> d | Some v \<Rightarrow> d(''VERSION'' \<mapsto> Str v))
             ?file w = Some (Inr dU', w1)"
  have out: "dU' ''UNINSTALLER_OUT_FILE'' = Some (Str ?u)"
    using computeScriptAndSignUninstaller_out [OF assms(2) sub] .
  have fin: "finishInstaller tools t ?file d dU' pfs w1 = Some (r, w2)"
    using assms(1,3) sub unfolding queuedTask_def Let_def by simp
  from finishInstaller_result [OF out fin]
  show "if makensis tools (d(''UNINSTALLER_OUT_FILE'' \<mapsto> Str ?u))
        then ?u \<notin> files w2
        else r = Some (ExternalFailure ''makensis'') \<and> files w2 = files w1"
    by simp
qed


theorem uninstaller_unlinked_after_compile_witness:
  "queuedTask sampleTools samplePackager (sampleTarget noOptions) [(x64, ''dist/win-unpacked'')]
     Map.empty [] emptyWorld \<noteq> None \<and>
   ''dist/App Setup 1.0.0.__uninstaller.exe'' \<notin>
     files (snd (the (queuedTask sampleTools samplePackager (sampleTarget noOptions)
                        [(x64, ''dist/win-unpacked'')] Map.empty [] emptyWorld)))"
proof -
  let ?t = "sampleTarget noOptions"
  let ?a = "[(x64, ''dist/win-unpacked'')]"
  let ?file = "''dist/App Setup 1.0.0.exe''"
  let ?u = "''dist/App Setup 1.0.0.__uninstaller.exe''"
  let ?dU' = "(Map.empty :: Defines)(''BUILD_UNINSTALLER'' := None, ''UNINSTALLER_OUT_FILE'' \<mapsto> Str ?u)"
  let ?w1 = "\<lparr>files = insert ?u (insert ?file (files emptyWorld)),
            events = events emptyWorld @ [OutFileProbes 0, Makensis ?file True, ExecWine ?file, Sign ?u]\<rparr>"
  have sub: "computeScriptAndSignUninstaller sampleTools samplePackager ?t
               (case shortVersion (appInfo samplePackager) of None \<Rightarrow> Map.empty
                | Some v \<Rightarrow> Map.empty(''VERSION'' \<mapsto> Str v))
               (installerPath samplePackager ?t ?a) emptyWorld = Some (Inr ?dU', ?w1)"
    using computeScriptAndSignUninstaller_wine
      [of samplePackager ?t sampleTools ?file Map.empty emptyWorld]
    by (simp add: sample_paths sampleTools_fields samplePackager_fields)
  have q: "queuedTask sampleTools samplePackager ?t ?a Map.empty [] emptyWorld =
             finishInstaller sampleTools ?t ?file Map.empty ?dU' [] ?w1"
    using sub unfolding queuedTask_def Let_def
    by (simp add: isPortable_sampleTarget sample_paths)
  have "finishInstaller sampleTools ?t ?file Map.empty ?dU' [] ?w1 \<noteq> None"
    by (rule finishInstaller_returns) (simp add: sampleTools_fields)
  with q obtain r w2 where
    r: "queuedTask sampleTools samplePackager ?t ?a Map.empty [] emptyWorld = Some (r, w2)"
    by (cases "queuedTask sampleTools samplePackager ?t ?a Map.empty [] emptyWorld") auto
  have g: "getResource samplePackager (script (options ?t)) ''installer.nsi'' = None"
    by (simp add: samplePackager_fields)
  show ?thesis
    using uninstaller_unlinked_after_compile [OF isPortable_sampleTarget g r, rule_format, OF sub] r
    by (simp add: sample_paths sampleTools_fields)
qed


text \<open>
  Claim C4, as stated, fails: when the stub of the uninstaller compiles and the
  installer does not, the build ends with the failure of the compiler and the temporary
  uninstaller is still in the output directory.
\<close>

theorem uninstaller_left_after_failed_compile_counterexample:
  "buildInstaller stubOnlyTools samplePackager (sampleTarget noOptions)
     [(x64, ''dist/win-unpacked'')] emptyWorld \<noteq> None \<and>
   fst (the (buildInstaller stubOnlyTools samplePackager (sampleTarget noOptions)
     [(x64, ''dist/win-unpacked'')] emptyWorld)) = Some (ExternalFailure ''makensis'') \<and>
   ''dist/App Setup 1.0.0.__uninstaller.exe'' \<in>
     files (snd (the (buildInstaller stubOnlyTools samplePackager (sampleTarget noOptions)
                        [(x64, ''dist/win-unpacked'')] emptyWorld)))"
proof -
  let ?t = "sampleTarget noOptions"
  let ?a = "[(x64, ''dist/win-unpacked'')]"
  let ?file = "''dist/App Setup 1.0.0.exe''"
  let ?u = "''dist/App Setup 1.0.0.__uninstaller.exe''"
  obtain d pf evs where
    b: "buildInstallerDefines samplePackager ?t ?a = (Inr (d, pf), evs)"
    using buildInstallerDefines_succeeds [of ?t ?a samplePackager]
      isPortable_sampleTarget packs_samplePackager
    by (auto simp: options_sampleTarget noOptions_fields truthy_def)
  have nb: "d ''BUILD_UNINSTALLER'' = None"
    using buildInstallerDefines_keys(4) [OF b isPortable_sampleTarget] .
  let ?w = "emit evs emptyWorld"
  let ?dU' = "d(''BUILD_UNINSTALLER'' := None, ''UNINSTALLER_OUT_FILE'' \<mapsto> Str ?u)"
  let ?w1 = "\<lparr>files = insert ?u (insert ?file (files ?w)),
            events = events ?w @ [OutFileProbes 0, Makensis ?file True, ExecWine ?file, Sign ?u]\<rparr>"
  have sub: "computeScriptAndSignUninstaller stubOnlyTools samplePackager ?t d ?file ?w
               = Some (Inr ?dU', ?w1)"
    using computeScriptAndSignUninstaller_wine [of samplePackager ?t stubOnlyTools ?file d ?w]
    by (simp add: sample_paths sampleTools_fields samplePackager_fields)
  have fin: "finishInstaller stubOnlyTools ?t ?file d ?dU' pf ?w1 =
     Some (Some (ExternalFailure ''makensis''),
           \<lparr>files = files ?w1,
            events = events ?w1 @ [OutFileProbes 0, Makensis ?file (d ''BUILD_UNINSTALLER'' \<noteq> None)]\<rparr>)"
    by (rule finishInstaller_compile_fails) (simp_all add: sampleTools_fields nb)
  have "buildInstaller stubOnlyTools samplePackager ?t ?a emptyWorld =
          finishInstaller stubOnlyTools ?t ?file d ?dU' pf ?w1"
    unfolding buildInstaller_def b queuedTask_def Let_def
    using sub by (simp add: samplePackager_fields isPortable_sampleTarget sample_paths)
  with fin show ?thesis by simp
qed

subsection \<open>The package file of the web installer\<close>

lemma StrCmp_empty: "StrCmp x [] \<longleftrightarrow> x = []"
  by (simp add: StrCmp_def toLowerCase_def)

lemma StrCmp_refl: "StrCmp x x"
  by (simp add: StrCmp_def)

lemma StrCmp_false_true: "\<not> StrCmp ''false'' ''true''"
  by (simp add: StrCmp_def toLowerCase_def)

lemma selectPackageFile_explicit:
  assumes "packageFileParameter m \<noteq> []"
  shows "selectPackageFile defs m s =
           s\<lparr>packageFile := packageFileParameter m, isPackageFileExplicitlySpecified := ''true''\<rparr>"
  using assms by (simp add: selectPackageFile_def StrCmp_empty)

lemma selectPackageFile_default:
  assumes "packageFileParameter m = []"
  shows "selectPackageFile defs m s =
           s\<lparr>packageFile := EXEDIR m @ ''/'' @ expandDefine defs (defaultSlot defs m @ ''_NAME''),
             isPackageFileExplicitlySpecified := ''false'',
             reg1 := expandDefine defs (defaultSlot defs m @ ''_HASH''),
             reg4 := expandDefine defs (defaultSlot defs m @ ''_NAME'')\<rparr>"
  using assms by (simp add: selectPackageFile_def StrCmp_empty Let_def)

lemma webDefines_slot:
  "defaultSlot webDefines plainMachine = ''APP_64''"
  "defaultSlot webDefines matchingMachine = ''APP_64''"
  by (simp_all add: defaultSlot_def webDefines_def plainMachine_def matchingMachine_def
      updaterMachine_def)

lemma webDefines_values:
  "webDefines ''APP_BUILD_DIR'' = None" "webDefines ''APP_PACKAGE_URL'' \<noteq> None"
  "expandDefine webDefines ''APP_64_NAME'' = ''app-1.0.0-x64.nsis.7z''"
  "expandDefine webDefines ''APP_64_HASH'' = ''54A3228B''"
  "expandDefine webDefines ''APP_PACKAGE_STORE_FILE'' = ''app-updater/package.7z''"
  "expandDefine webDefines ''UNINSTALL_FILENAME'' = ''Uninstall App.exe''"
  "expandDefine webDefines ''UNINSTALLER_OUT_FILE'' = ''dist/App Web Setup 1.0.0.__uninstaller.exe''"
  by (simp_all add: webDefines_def expandDefine_def)

lemma char_eq_char_of: "c = char_of (n :: nat) \<longleftrightarrow> take_bit 8 n = of_char c"
  using char_of_eq_iff [of n c] by auto

lemma StrCmp_sample_hashes:
  "StrCmp ''54a3228b'' ''54A3228B''" "\<not> StrCmp ''00FF00FF'' ''54A3228B''"
  by (simp_all add: StrCmp_def toLowerCase_def char_of_eq_iff char_eq_char_of)

lemma machine_fields:
  "packageFileParameter updaterMachine = ''C:/cache/pending/package.7z''"
  "packageFileParameter plainMachine = []" "packageFileParameter matchingMachine = []"
  "FileExists updaterMachine = (\<lambda>f. True)" "FileExists plainMachine = (\<lambda>f. True)"
  "FileExists matchingMachine = (\<lambda>f. True)"
  "EXEDIR plainMachine = ''C:/Downloads''" "EXEDIR matchingMachine = ''C:/Downloads''"
  "StdUtils_HashFile plainMachine = (\<lambda>f. ''00FF00FF'')"
  "StdUtils_HashFile matchingMachine = (\<lambda>f. ''54a3228b'')"
  "downloadApplicationFiles plainMachine = (\<lambda>s. s\<lparr>packageFile := ''$PLUGINSDIR/package.7z''\<rparr>)"
  by (simp_all add: updaterMachine_def plainMachine_def matchingMachine_def)

text \<open>
  Claim C9. When the run-time parameter \<^verbatim>\<open>package-file\<close> is supplied and not empty, the
  choice of the package file sets \<^verbatim>\<open>$packageFile\<close> to the supplied path, marks it as
  explicitly specified and does nothing else: the result does not depend on the defines
  \<^verbatim>\<open>APP_ARM64_NAME\<close>, \<^verbatim>\<open>APP_64_NAME\<close>, \<^verbatim>\<open>APP_32_NAME\<close> or on the architecture of the
  machine, and the registers of the default selection stay as they were. In the web
  installer, when the supplied file exists, the macro extracts it.
\<close>

theorem package_file_parameter_takes_precedence:
  assumes "packageFileParameter m \<noteq> []"
  shows "selectPackageFile defs m s =
           s\<lparr>packageFile := packageFileParameter m, isPackageFileExplicitlySpecified := ''true''\<rparr> \<and>
         (defs ''APP_BUILD_DIR'' = None \<and> defs ''APP_PACKAGE_URL'' \<noteq> None \<and>
          FileExists m (packageFileParameter m) \<longrightarrow>
            installApplicationFiles defs m s =
              log [FileUninstaller (''/oname='' @ expandDefine defs ''UNINSTALL_FILENAME'')
                     (expandDefine defs ''UNINSTALLER_OUT_FILE'')]
                (fun_extract defs
                   (s\<lparr>packageFile := packageFileParameter m,
                      isPackageFileExplicitlySpecified := ''true''\<rparr>)))"
  using selectPackageFile_explicit [OF assms, of defs s]
  by (simp add: installApplicationFiles_def installFromPackage_def Let_def StrCmp_refl)

theorem package_file_parameter_takes_precedence_witness:
  "trace (installApplicationFiles webDefines updaterMachine freshInstaller) =
     [ExtractUsing7za ''C:/cache/pending/package.7z'',
      SetShellVarContext ''current'',
      MoveFile ''C:/cache/pending/package.7z''
        (''$LOCALAPPDATA'' @ [backslash] @ ''app-updater/package.7z''),
      SetShellVarContext ''all'',
      FileUninstaller ''/oname=Uninstall App.exe'' ''dist/App Web Setup 1.0.0.__uninstaller.exe'']"
  using package_file_parameter_takes_precedence [of updaterMachine webDefines freshInstaller]
  by (simp add: machine_fields webDefines_values fun_extract_def log_def Let_def StrCmp_refl
      freshInstaller_def)


text \<open>
  Claim C10. In the web installer the check of the local package file is asymmetric.
  A file given by the parameter \<^verbatim>\<open>package-file\<close> that exists is extracted as it is:
  nothing hashes it. Without the parameter, the file of the default selection that is
  found beside the installer is hashed with SHA2-512; it is extracted when the hash
  equals the embedded one (compared by \<^verbatim>\<open>StrCmp\<close>, so without regard to the case of
  the hexadecimal digits), and otherwise a message is shown, the local file is ignored
  and the package is downloaded.
\<close>

theorem package_checksum_asymmetry:
  assumes "defs ''APP_BUILD_DIR'' = None" and "defs ''APP_PACKAGE_URL'' \<noteq> None"
  shows "(packageFileParameter m \<noteq> [] \<and> FileExists m (packageFileParameter m) \<longrightarrow>
            installFromPackage defs m s =
              fun_extract defs
                (s\<lparr>packageFile := packageFileParameter m,
                   isPackageFileExplicitlySpecified := ''true''\<rparr>)) \<and>
         (packageFileParameter m = [] \<and>
          FileExists m (EXEDIR m @ ''/'' @ expandDefine defs (defaultSlot defs m @ ''_NAME'')) \<longrightarrow>
            (let name = expandDefine defs (defaultSlot defs m @ ''_NAME'');
                 expected = expandDefine defs (defaultSlot defs m @ ''_HASH'');
                 local = EXEDIR m @ ''/'' @ name;
                 actual = StdUtils_HashFile m local;
                 hashed = log [HashFile local]
                            (s\<lparr>packageFile := local, isPackageFileExplicitlySpecified := ''false'',
                               reg1 := expected, reg4 := name, reg3 := actual\<rparr>)
             in installFromPackage defs m s =
                  (if StrCmp actual expected then fun_extract defs hashed
                   else fun_extract defs
                          (downloadApplicationFiles m
                             (log [ChecksumMismatchBox name expected actual,
                                   DownloadApplicationFiles] hashed)))))"
proof (intro conjI impI)
  assume "packageFileParameter m \<noteq> [] \<and> FileExists m (packageFileParameter m)"
  then show "installFromPackage defs m s =
              fun_extract defs
                (s\<lparr>packageFile := packageFileParameter m,
                   isPackageFileExplicitlySpecified := ''true''\<rparr>)"
    using selectPackageFile_explicit [of m defs s]
    by (simp add: installFromPackage_def Let_def StrCmp_refl)
next
  assume a: "packageFileParameter m = [] \<and>
    FileExists m (EXEDIR m @ ''/'' @ expandDefine defs (defaultSlot defs m @ ''_NAME''))"
  then show "let name = expandDefine defs (defaultSlot defs m @ ''_NAME'');
                 expected = expandDefine defs (defaultSlot defs m @ ''_HASH'');
                 local = EXEDIR m @ ''/'' @ name;
                 actual = StdUtils_HashFile m local;
                 hashed = log [HashFile local]
                            (s\<lparr>packageFile := local, isPackageFileExplicitlySpecified := ''false'',
                               reg1 := expected, reg4 := name, reg3 := actual\<rparr>)
             in installFromPackage defs m s =
                  (if StrCmp actual expected then fun_extract defs hashed
                   else fun_extract defs
                          (downloadApplicationFiles m
                             (log [ChecksumMismatchBox name expected actual,
                                   DownloadApplicationFiles] hashed)))"
    using selectPackageFile_default [of m defs s]
    by (simp add: installFromPackage_def Let_def StrCmp_false_true log_def)
qed


theorem package_checksum_asymmetry_witness:
  "trace (installFromPackage webDefines updaterMachine freshInstaller) =
     [ExtractUsing7za ''C:/cache/pending/package.7z'',
      SetShellVarContext ''current'',
      MoveFile ''C:/cache/pending/package.7z''
        (''$LOCALAPPDATA'' @ [backslash] @ ''app-updater/package.7z''),
      SetShellVarContext ''all''] \<and>
   trace (installFromPackage webDefines matchingMachine freshInstaller) =
     [HashFile ''C:/Downloads/app-1.0.0-x64.nsis.7z'',
      ExtractUsing7za ''C:/Downloads/app-1.0.0-x64.nsis.7z'',
      SetShellVarContext ''current'',
      MoveFile ''C:/Downloads/app-1.0.0-x64.nsis.7z''
        (''$LOCALAPPDATA'' @ [backslash] @ ''app-updater/package.7z''),
      SetShellVarContext ''all''] \<and>
   trace (installFromPackage webDefines plainMachine freshInstaller) =
     [HashFile ''C:/Downloads/app-1.0.0-x64.nsis.7z'',
      ChecksumMismatchBox ''app-1.0.0-x64.nsis.7z'' ''54A3228B'' ''00FF00FF'',
      DownloadApplicationFiles,
      ExtractUsing7za ''$PLUGINSDIR/package.7z'',
      SetShellVarContext ''current'',
      MoveFile ''$PLUGINSDIR/package.7z''
        (''$LOCALAPPDATA'' @ [backslash] @ ''app-updater/package.7z''),
      SetShellVarContext ''all'']"
  using package_checksum_asymmetry [of webDefines updaterMachine freshInstaller]
    package_checksum_asymmetry [of webDefines matchingMachine freshInstaller]
    package_checksum_asymmetry [of webDefines plainMachine freshInstaller]
  by (simp add: machine_fields webDefines_values webDefines_slot StrCmp_sample_hashes
      fun_extract_def log_def Let_def StrCmp_refl freshInstaller_def)

end
